theory Spec2Isabelle
  imports Main "HOL-Library.Word" "HOL-Library.Signed_Division"
begin

section \<open>Certificate status values (certstatus.h, src/unnamed/part_000)\<close>

text \<open>
  The two status enums of \<^verbatim>\<open>certstatus.h\<close>. \<^verbatim>\<open>certstatus_t\<close> is numbered from 0 in
  the order of \<^verbatim>\<open>CERT_STATUS_LIST\<close>; \<^verbatim>\<open>ocspcertstatus_t\<close> takes OpenSSL's values
  \<^verbatim>\<open>V_OCSP_CERTSTATUS_GOOD = 0\<close>, \<^verbatim>\<open>V_OCSP_CERTSTATUS_REVOKED = 1\<close> and
  \<^verbatim>\<open>V_OCSP_CERTSTATUS_UNKNOWN = 2\<close>.
\<close>

datatype certstatus_t = UNKNOWN | PENDING_APPROVAL | PENDING | VALID | EXPIRED | REVOKED

datatype ocspcertstatus_t =
  OCSP_CERTSTATUS_GOOD | OCSP_CERTSTATUS_REVOKED | OCSP_CERTSTATUS_UNKNOWN

fun certstatus_index :: "certstatus_t \<Rightarrow> nat" where
  "certstatus_index UNKNOWN = 0"
| "certstatus_index PENDING_APPROVAL = 1"
| "certstatus_index PENDING = 2"
| "certstatus_index VALID = 3"
| "certstatus_index EXPIRED = 4"
| "certstatus_index REVOKED = 5"

fun ocspcertstatus_index :: "ocspcertstatus_t \<Rightarrow> nat" where
  "ocspcertstatus_index OCSP_CERTSTATUS_GOOD = 0"
| "ocspcertstatus_index OCSP_CERTSTATUS_REVOKED = 1"
| "ocspcertstatus_index OCSP_CERTSTATUS_UNKNOWN = 2"

text \<open>\<^verbatim>\<open>CERT_STATE(index)\<close> and \<^verbatim>\<open>OCSP_CERT_STATE(index)\<close>: the name of a status.\<close>

fun CERT_STATE :: "certstatus_t \<Rightarrow> string" where
  "CERT_STATE UNKNOWN = ''UNKNOWN''"
| "CERT_STATE PENDING_APPROVAL = ''PENDING_APPROVAL''"
| "CERT_STATE PENDING = ''PENDING''"
| "CERT_STATE VALID = ''VALID''"
| "CERT_STATE EXPIRED = ''EXPIRED''"
| "CERT_STATE REVOKED = ''REVOKED''"

fun OCSP_CERT_STATE :: "ocspcertstatus_t \<Rightarrow> string" where
  "OCSP_CERT_STATE OCSP_CERTSTATUS_GOOD = ''OCSP_CERTSTATUS_GOOD''"
| "OCSP_CERT_STATE OCSP_CERTSTATUS_REVOKED = ''OCSP_CERTSTATUS_REVOKED''"
| "OCSP_CERT_STATE OCSP_CERTSTATUS_UNKNOWN = ''OCSP_CERTSTATUS_UNKNOWN''"

text \<open>
  \<^verbatim>\<open>struct CertStatus { uint32_t i; std::string s; }\<close>: the enum index and its name.
  The fields are called \<open>status_i\<close> and \<open>status_s\<close> here, since \<open>i\<close> and \<open>s\<close> are wanted
  as variable names. \<^verbatim>\<open>PVACertStatus\<close> and \<^verbatim>\<open>OCSPCertStatus\<close> are its two subclasses;
  they add no field, only the constructor from the enum and the comparisons on \<open>i\<close>.
\<close>

record CertStatus =
  status_i :: nat
  status_s :: string

definition PVACertStatus :: "certstatus_t \<Rightarrow> CertStatus" where
  "PVACertStatus st = \<lparr>status_i = certstatus_index st, status_s = CERT_STATE st\<rparr>"

definition OCSPCertStatus :: "ocspcertstatus_t \<Rightarrow> CertStatus" where
  "OCSPCertStatus st = \<lparr>status_i = ocspcertstatus_index st, status_s = OCSP_CERT_STATE st\<rparr>"

text \<open>\<^verbatim>\<open>bool operator==(certstatus_t rhs) const { return this->i == rhs; }\<close> and its
  OCSP sibling.\<close>

definition pva_status_eq :: "CertStatus \<Rightarrow> certstatus_t \<Rightarrow> bool" where
  "pva_status_eq lhs rhs = (status_i lhs = certstatus_index rhs)"

definition ocsp_status_eq :: "CertStatus \<Rightarrow> ocspcertstatus_t \<Rightarrow> bool" where
  "ocsp_status_eq lhs rhs = (status_i lhs = ocspcertstatus_index rhs)"

text \<open>
  \<^verbatim>\<open>time_t\<close> is a signed count of seconds since the epoch. No claim depends on its
  width, so it is an unbounded integer here.

  \<^verbatim>\<open>struct StatusDate { std::time_t t; std::string s; }\<close>: \<open>s\<close> is the
  \<^verbatim>\<open>strftime\<close> rendering of \<open>t\<close> and takes part in no comparison
  (\<^verbatim>\<open>operator==\<close> compares \<open>t\<close> only), so the record keeps \<open>t\<close>, as \<open>date_t\<close>.
\<close>

type_synonym time_t = int

record StatusDate =
  date_t :: time_t

definition StatusDate_eq :: "StatusDate \<Rightarrow> StatusDate \<Rightarrow> bool" where
  "StatusDate_eq lhs rhs = (date_t lhs = date_t rhs)"

text \<open>\<^verbatim>\<open>struct OCSPStatus\<close> and its subclass \<^verbatim>\<open>struct CertificateStatus\<close>.\<close>

record OCSPStatus =
  ocsp_bytes :: "8 word list"
  ocsp_status :: CertStatus
  status_date :: StatusDate
  status_valid_until_date :: StatusDate
  revocation_date :: StatusDate

record CertificateStatus = OCSPStatus +
  status :: CertStatus

text \<open>
  \<^verbatim>\<open>OCSPStatus::isValid\<close> and \<^verbatim>\<open>OCSPStatus::isGood\<close>. Both read the clock with
  \<^verbatim>\<open>std::time(nullptr)\<close>; the reading is the argument \<open>now\<close>.
\<close>

definition isValid :: "('a OCSPStatus_scheme) \<Rightarrow> time_t \<Rightarrow> bool" where
  "isValid st now = (date_t (status_valid_until_date st) > now)"

definition isGood :: "('a OCSPStatus_scheme) \<Rightarrow> time_t \<Rightarrow> bool" where
  "isGood st now = (isValid st now \<and> ocsp_status_eq (ocsp_status st) OCSP_CERTSTATUS_GOOD)"


section \<open>Stream formatting (iostream, as used by certstatus.h)\<close>

text \<open>
  \<^verbatim>\<open>operator<<\<close> on an unsigned integer writes its digits in the stream's base, most
  significant first, without leading zeros (lower-case letters for the hexadecimal
  digits above 9, as \<^verbatim>\<open>std::uppercase\<close> is never set). \<^verbatim>\<open>std::setw(w)\<close> with
  \<^verbatim>\<open>std::setfill(c)\<close> pads the next item on the left up to \<open>w\<close> characters and never
  truncates it.
\<close>

definition hex_digit_chars :: string where
  "hex_digit_chars = ''0123456789abcdef''"

definition digit_char :: "nat \<Rightarrow> char" where
  "digit_char d = hex_digit_chars ! d"

function format_unsigned :: "nat \<Rightarrow> nat \<Rightarrow> string" where
  "format_unsigned b n =
     (if 2 \<le> b \<and> b \<le> n then format_unsigned b (n div b) @ [digit_char (n mod b)]
      else [digit_char n])"
  by pat_completeness auto
termination
  by (relation "measure (\<lambda>(b, n). n)") auto

declare format_unsigned.simps [simp del]

definition setw_setfill :: "nat \<Rightarrow> char \<Rightarrow> string \<Rightarrow> string" where
  "setw_setfill w c str = replicate (w - length str) c @ str"

section \<open>Errors\<close>

text \<open>
  The exception classes the modelled code throws. \<^verbatim>\<open>OCSPParseException\<close> and
  \<^verbatim>\<open>CertStatusException\<close> derive from \<^verbatim>\<open>std::runtime_error\<close>;
  \<^verbatim>\<open>CertStatusNoExtensionException\<close> and \<^verbatim>\<open>CertStatusSubscriptionException\<close> derive
  from \<^verbatim>\<open>CertStatusException\<close>; \<^verbatim>\<open>std::invalid_argument\<close> derives from
  \<^verbatim>\<open>std::logic_error\<close>. A function that may throw returns \<open>error + 'a\<close>.
\<close>

datatype error =
    runtime_error string
  | OCSPParseException string
  | CertStatusException string
  | CertStatusNoExtensionException string
  | CertStatusSubscriptionException string
  | invalid_argument string

fun is_runtime_error :: "error \<Rightarrow> bool" where
  "is_runtime_error (invalid_argument msg) = False"
| "is_runtime_error e = True"

fun is_CertStatusNoExtensionException :: "error \<Rightarrow> bool" where
  "is_CertStatusNoExtensionException (CertStatusNoExtensionException msg) = True"
| "is_CertStatusNoExtensionException e = False"

section \<open>Certificates as the code reads them\<close>

text \<open>
  An X.509 certificate is seen only through OpenSSL accessors; the record holds what each
  accessor the code calls returns for the certificate, a null pointer being \<open>None\<close>:
  \<^item> \<open>subject_key_identifier\<close>: the octets given by
    \<^verbatim>\<open>X509_get_ext_d2i(cert, NID_subject_key_identifier, nullptr, nullptr)\<close>;
  \<^item> \<open>PvaCertStatusURI_index\<close>:
    \<^verbatim>\<open>X509_get_ext_by_NID(cert, NID_PvaCertStatusURI, -1)\<close>;
  \<^item> \<open>PvaCertStatusURI_ext\<close>: \<^verbatim>\<open>X509_get_ext(cert, extension_index)\<close>;
  \<^item> \<open>serial_number\<close>: the certificate's serial number.
  An extension gives its value with \<^verbatim>\<open>X509_EXTENSION_get_data\<close>, an ASN.1 string its
  bytes and length with \<^verbatim>\<open>ASN1_STRING_get0_data\<close> and \<^verbatim>\<open>ASN1_STRING_length\<close>.
\<close>

record ASN1_STRING =
  asn1_data :: "string option"
  asn1_length :: int

record X509_EXTENSION =
  extension_data :: "ASN1_STRING option"

record X509 =
  subject_key_identifier :: "8 word list option"
  PvaCertStatusURI_index :: int
  PvaCertStatusURI_ext :: "X509_EXTENSION option"
  serial_number :: "64 word"

subsection \<open>\<^verbatim>\<open>CertStatus::getIssuerId\<close>\<close>

text \<open>
  One octet written with \<^verbatim>\<open>std::hex << std::setw(2) << std::setfill('0')\<close>, after
  \<^verbatim>\<open>static_cast<int>\<close> of the \<^verbatim>\<open>unsigned char\<close>.
\<close>

definition hex2 :: "8 word \<Rightarrow> string" where
  "hex2 b = setw_setfill 2 (CHR ''0'') (format_unsigned 16 (unat b))"

text \<open>
  The loop \<^verbatim>\<open>for (int i = 0; i < skid->length && ss.tellp() < 8; i++) ss << ...\<close>:
  \<open>ss\<close> is what the stream holds, and \<^verbatim>\<open>tellp()\<close> is its length.
\<close>

function getIssuerId_loop :: "8 word list \<Rightarrow> nat \<Rightarrow> string \<Rightarrow> string" where
  "getIssuerId_loop buf i ss =
     (if i < length buf \<and> length ss < 8
      then getIssuerId_loop buf (Suc i) (ss @ hex2 (buf ! i))
      else ss)"
  by pat_completeness auto
termination
  by (relation "measure (\<lambda>(buf, i, ss). length buf - i)") auto

declare getIssuerId_loop.simps [simp del]

definition getIssuerId :: "X509 \<Rightarrow> error + string" where
  "getIssuerId ca_cert =
     (case subject_key_identifier ca_cert of
        None \<Rightarrow> Inl (runtime_error ''Failed to get Subject Key Identifier.'')
      | Some skid \<Rightarrow> Inr (getIssuerId_loop skid 0 []))"

text \<open>
  The wording of the specification, to compare \<open>getIssuerId\<close> with: the octets of the
  SKI written as lower-case hexadecimal, two characters per octet, high nibble first.
\<close>

definition spec_hex_of_octets :: "8 word list \<Rightarrow> string" where
  "spec_hex_of_octets octets =
     concat (map (\<lambda>b. [digit_char (unat b div 16), digit_char (unat b mod 16)]) octets)"

subsection \<open>\<^verbatim>\<open>CertStatus::makeStatusURI\<close>\<close>

text \<open>
  \<^verbatim>\<open>SB() << GET_MONITOR_CERT_STATUS_ROOT << ":" << issuer_id << ":" << std::setw(16)
  << std::setfill('0') << serial\<close>. The stream is in its default base, ten:
  \<^verbatim>\<open>std::hex\<close> is not set here.
\<close>

definition GET_MONITOR_CERT_STATUS_ROOT :: string where
  "GET_MONITOR_CERT_STATUS_ROOT = ''CERT:STATUS''"

definition makeStatusURI :: "string \<Rightarrow> 64 word \<Rightarrow> string" where
  "makeStatusURI issuer_id serial =
     GET_MONITOR_CERT_STATUS_ROOT @ '':'' @ issuer_id @ '':''
       @ setw_setfill 16 (CHR ''0'') (format_unsigned 10 (unat serial))"

text \<open>
  The wording of the specification, to compare \<open>makeStatusURI\<close> with: the serial as
  exactly 16 hexadecimal digits, zero-padded on the left, after
  \<open>CERT:STATUS:<issuer_id>:\<close>.
\<close>

fun spec_hex_fixed :: "nat \<Rightarrow> nat \<Rightarrow> string" where
  "spec_hex_fixed 0 n = []"
| "spec_hex_fixed (Suc k) n = spec_hex_fixed k (n div 16) @ [digit_char (n mod 16)]"

definition spec_status_pv_name :: "string \<Rightarrow> 64 word \<Rightarrow> string" where
  "spec_status_pv_name issuer_id serial =
     ''CERT:STATUS:'' @ issuer_id @ '':'' @ spec_hex_fixed 16 (unat serial)"

text \<open>The number a string of decimal digits denotes.\<close>

definition digit_value :: "char \<Rightarrow> nat" where
  "digit_value c = of_char c - 48"

definition dec_value :: "string \<Rightarrow> nat" where
  "dec_value str = foldl (\<lambda>acc c. 10 * acc + digit_value c) 0 str"

section \<open>The certificate database (src/certs/pvacms.h)\<close>

text \<open>
  One row of the table \<^verbatim>\<open>certs\<close> created by \<^verbatim>\<open>SQL_CREATE_DB_FILE\<close>. The columns
  keep their names behind the prefix \<open>col_\<close>. SQLite's \<^verbatim>\<open>INTEGER\<close> is a signed
  64-bit value; the queries below only compare, so it is an integer here.
\<close>

record cert_row =
  col_serial :: int
  col_skid :: string
  col_CN :: string
  col_O :: string
  col_OU :: string
  col_C :: string
  col_not_before :: int
  col_not_after :: int
  col_status :: int
  col_status_date :: int

text \<open>
  \<^verbatim>\<open>SQL_CERT_TO_VALID\<close>: \<^verbatim>\<open>SELECT serial FROM certs WHERE not_before <=
  strftime('%s', 'now') AND not_after > strftime('%s', 'now')\<close>, and
  \<^verbatim>\<open>SQL_CERT_TO_EXPIRED\<close>: \<^verbatim>\<open>SELECT serial FROM certs WHERE not_after <=
  strftime('%s', 'now')\<close>. \<open>now\<close> is the number of seconds since the epoch that
  \<^verbatim>\<open>strftime('%s', 'now')\<close> gives; the table is the list of its rows. Neither query
  looks at the column \<^verbatim>\<open>status\<close>.
\<close>

definition SQL_CERT_TO_VALID :: "int \<Rightarrow> cert_row list \<Rightarrow> int list" where
  "SQL_CERT_TO_VALID now certs =
     map col_serial (filter (\<lambda>r. col_not_before r \<le> now \<and> col_not_after r > now) certs)"

definition SQL_CERT_TO_EXPIRED :: "int \<Rightarrow> cert_row list \<Rightarrow> int list" where
  "SQL_CERT_TO_EXPIRED now certs =
     map col_serial (filter (\<lambda>r. col_not_after r \<le> now) certs)"

text \<open>A certificate whose validity ends at second 100, for the examples.\<close>

definition example_row :: cert_row where
  "example_row = \<lparr>col_serial = 7, col_skid = ''27975e6b'', col_CN = ''alice'', col_O = ''epics'',
     col_OU = ''controls'', col_C = ''US'', col_not_before = 10, col_not_after = 100,
     col_status = 3, col_status_date = 10\<rparr>"

section \<open>The certificate tool (main, src/tools/cert.cpp)\<close>

text \<open>
  One run of \<^verbatim>\<open>main\<close>, described by what it reads from the command line and by the
  outcome of each step it does not compute itself:
  \<^item> \<open>CLI11_PARSE_exit\<close>: \<open>Some c\<close> when \<^verbatim>\<open>app.parse\<close> throws a
    \<^verbatim>\<open>CLI::ParseError\<close> and the macro \<^verbatim>\<open>CLI11_PARSE\<close> returns \<^verbatim>\<open>app.exit(e)\<close>,
    the code \<open>c\<close> that CLI11 gives the error;
  \<^item> the flags and option values that \<^verbatim>\<open>app.parse\<close> stores (\<open>help_flag\<close> is the variable \<^verbatim>\<open>help\<close>);
  \<^item> \<open>build_error\<close>: the exception of \<^verbatim>\<open>conf.build()\<close>, if it throws;
  \<^item> \<open>cert_id_from_file\<close>: the status PV name read from the certificate file
    (\<^verbatim>\<open>IdFileFactory::create(...)->getCertDataFromFile()\<close>, then
    \<^verbatim>\<open>getStatusPvFromCert\<close>), or the exception thrown;
  \<^item> \<open>exec_error\<close>: the exception thrown while the GET or PUT is started, if any;
  \<^item> \<open>done_wait\<close>: how \<^verbatim>\<open>done.wait(conf.request_timeout_specified)\<close> ends. The
    event \<open>done\<close> is signalled by the result callback of the operation and by the
    \<^verbatim>\<open>SigInt\<close> handler alike.
\<close>

datatype wait_result = TimedOut | ResultReceived | Interrupted

datatype format_t = Delta | Tree

record cert_tool_run =
  argc :: int
  CLI11_PARSE_exit :: "int option"
  help_flag :: bool
  show_version :: bool
  password_flag :: bool
  cert_file :: string
  format_str :: string
  issuer_serial_string :: string
  approve :: bool
  revoke :: bool
  deny :: bool
  build_error :: "error option"
  cert_id_from_file :: "error + string"
  exec_error :: "error option"
  done_wait :: wait_result

definition stringToFormat :: "string \<Rightarrow> error + format_t" where
  "stringToFormat formatStr =
     (if formatStr = ''delta'' then Inr Delta
      else if formatStr = ''tree'' then Inr Tree
      else Inl (invalid_argument ''Invalid format type''))"

text \<open>
  \<^verbatim>\<open>main\<close>, as the exit code of the process: the value returned, 0 for
  \<^verbatim>\<open>exit(0)\<close> after the help text, and 6 from the handler
  \<^verbatim>\<open>catch (std::exception& e)\<close> around the whole body. Which request is started
  (GET, or PUT of APPROVED, DENIED or REVOKED) has no part in the exit code.
\<close>

definition main :: "cert_tool_run \<Rightarrow> int" where
  "main run =
     (case CLI11_PARSE_exit run of
        Some code \<Rightarrow> code
      | None \<Rightarrow>
          if help_flag run then 0
          else if show_version run then (if argc run > 2 then 1 else 0)
          else if password_flag run \<and> cert_file run = [] then 1
          else if cert_file run \<noteq> [] \<and> (approve run \<or> revoke run \<or> deny run) then 2
          else
            (case (if format_str run \<noteq> [] then stringToFormat (format_str run) else Inr Delta) of
               Inl e \<Rightarrow> 6
             | Inr format \<Rightarrow>
                 (case build_error run of
                    Some e \<Rightarrow> 6
                  | None \<Rightarrow>
                      (case (if cert_file run \<noteq> [] then cert_id_from_file run
                             else Inr (''CERT:STATUS:'' @ issuer_serial_string run)) of
                         Inl e \<Rightarrow> 3
                       | Inr cert_id \<Rightarrow>
                           (case exec_error run of
                              Some e \<Rightarrow> 3
                            | None \<Rightarrow>
                                (let waited = (done_wait run \<noteq> TimedOut) in
                                 if \<not> waited then 4
                                 else if issuer_serial_string run = [] then 0
                                 else 5))))))"

text \<open>
  Two runs for the examples: the status of a certificate asked by its id, answered by
  the CMS; and the status asked through a certificate file, interrupted by the user
  before any answer.
\<close>

definition run_status_by_id :: cert_tool_run where
  "run_status_by_id = \<lparr>argc = 2, CLI11_PARSE_exit = None, help_flag = False, show_version = False,
     password_flag = False, cert_file = [], format_str = [],
     issuer_serial_string = ''27975e6b:7246297371190731775'',
     approve = False, revoke = False, deny = False, build_error = None,
     cert_id_from_file = Inr [], exec_error = None, done_wait = ResultReceived\<rparr>"

definition run_file_interrupted :: cert_tool_run where
  "run_file_interrupted = \<lparr>argc = 3, CLI11_PARSE_exit = None, help_flag = False,
     show_version = False, password_flag = False, cert_file = ''client.p12'', format_str = [],
     issuer_serial_string = [],
     approve = False, revoke = False, deny = False, build_error = None,
     cert_id_from_file = Inr ''CERT:STATUS:27975e6b:7246297371190731775'', exec_error = None,
     done_wait = Interrupted\<rparr>"

section \<open>The status PV of a certificate (src/src/certstatusmanager.cpp)\<close>

text \<open>\<^verbatim>\<open>CertStatusManager::shouldMonitor\<close>, \<^verbatim>\<open>getExtension\<close>,
  \<^verbatim>\<open>statusMonitoringRequired\<close> and \<^verbatim>\<open>getStatusPvFromCert\<close>.\<close>

definition shouldMonitor :: "X509 \<Rightarrow> bool" where
  "shouldMonitor certificate = (PvaCertStatusURI_index certificate \<ge> 0)"

definition getExtension :: "X509 \<Rightarrow> error + X509_EXTENSION" where
  "getExtension certificate =
     (let extension_index = PvaCertStatusURI_index certificate in
      if extension_index < 0
      then Inl (CertStatusNoExtensionException ''Failed to find extension index'')
      else (case PvaCertStatusURI_ext certificate of
              None \<Rightarrow> Inl (CertStatusNoExtensionException
                             ''Failed to get extension from the certificate.'')
            | Some extension \<Rightarrow> Inr extension))"

definition statusMonitoringRequired :: "X509 \<Rightarrow> bool" where
  "statusMonitoringRequired certificate =
     (case getExtension certificate of Inr extension \<Rightarrow> True | Inl e \<Rightarrow> False)"

definition getStatusPvFromCert :: "X509 \<Rightarrow> error + string" where
  "getStatusPvFromCert certificate =
     (case getExtension certificate of
        Inl e \<Rightarrow> Inl e
      | Inr extension \<Rightarrow>
          (case extension_data extension of
             None \<Rightarrow> Inl (CertStatusNoExtensionException
                            ''Failed to get data from the extension.'')
           | Some ext_data \<Rightarrow>
               (case asn1_data ext_data of
                  None \<Rightarrow> Inl (CertStatusNoExtensionException
                                 ''Failed to extract data from ASN1_STRING.'')
                | Some data \<Rightarrow>
                    if asn1_length ext_data < 0
                    then Inl (CertStatusNoExtensionException
                                ''Invalid length of ASN1_STRING data.'')
                    else Inr (take (nat (asn1_length ext_data)) data))))"

text \<open>
  What \<^verbatim>\<open>CertStatusManager::getPVAStatus(uri)\<close> throws when it gives no status: an
  exception of the client, thrown while the GET is executed and waited for (a timeout,
  a disconnect, an error sent by the server; classes derived from
  \<^verbatim>\<open>std::runtime_error\<close>), or the \<^verbatim>\<open>OCSPParseException\<close> with which the status
  built from the value received rejects it.
\<close>

datatype get_failure = client_error string | status_error string

fun get_failure_exception :: "get_failure \<Rightarrow> error" where
  "get_failure_exception (client_error msg) = runtime_error msg"
| "get_failure_exception (status_error msg) = OCSPParseException msg"

text \<open>
  \<^verbatim>\<open>CertStatusManager::getStatus(cert)\<close>: the PV name from the certificate, then
  \<^verbatim>\<open>getPVAStatus(uri)\<close>, a GET on that PV over the network. The outcome of the GET
  (the status built from the value received, or the failure) is the parameter
  \<open>cms_get\<close>.
\<close>

definition getStatus ::
  "(string \<Rightarrow> get_failure + CertificateStatus) \<Rightarrow> X509 \<Rightarrow> error + CertificateStatus" where
  "getStatus cms_get cert =
     (case getStatusPvFromCert cert of
        Inl e \<Rightarrow> Inl e
      | Inr uri \<Rightarrow>
          (case cms_get uri of
             Inl failure \<Rightarrow> Inl (get_failure_exception failure)
           | Inr st \<Rightarrow> Inr st))"

text \<open>
  OpenSSL's \<^verbatim>\<open>X509_dup\<close>, a library function: it encodes the certificate and decodes
  the encoding again. The copy is thus a freshly decoded certificate: an extension of
  it carries its value as an octet string with a data pointer and a length that is not
  negative. The copy of a certificate that is itself like this reads as the original.
\<close>

definition X509_dup :: "X509 \<Rightarrow> X509" where
  "X509_dup cert =
     cert\<lparr>PvaCertStatusURI_ext :=
       map_option
         (\<lambda>extension.
            \<lparr>extension_data = Some
               (case extension_data extension of
                  None \<Rightarrow> \<lparr>asn1_data = Some [], asn1_length = 0\<rparr>
                | Some ext_data \<Rightarrow>
                    \<lparr>asn1_data = Some (case asn1_data ext_data of None \<Rightarrow> [] | Some data \<Rightarrow> data),
                     asn1_length = max 0 (asn1_length ext_data)\<rparr>)\<rparr>)
         (PvaCertStatusURI_ext cert)\<rparr>"

section \<open>The TLS verify callback (openssl.cpp, in src/tools/cert.cpp)\<close>

text \<open>OpenSSL's verification error codes that \<^verbatim>\<open>ossl_verify\<close> names
  (\<^verbatim>\<open>x509_vfy.h\<close>).\<close>

definition X509_V_ERR_DEPTH_ZERO_SELF_SIGNED_CERT :: int where
  "X509_V_ERR_DEPTH_ZERO_SELF_SIGNED_CERT = 18"

definition X509_V_ERR_SELF_SIGNED_CERT_IN_CHAIN :: int where
  "X509_V_ERR_SELF_SIGNED_CERT_IN_CHAIN = 19"

definition X509_V_ERR_UNABLE_TO_GET_ISSUER_CERT_LOCALLY :: int where
  "X509_V_ERR_UNABLE_TO_GET_ISSUER_CERT_LOCALLY = 20"

text \<open>
  \<^verbatim>\<open>CertStatusExData\<close>, the data attached to a TLS context: whether status checking
  is enabled, and the cache of peer statuses by certificate serial number. The
  verification context gives the certificate being verified
  (\<^verbatim>\<open>X509_STORE_CTX_get_current_cert\<close>), the verification error
  (\<^verbatim>\<open>X509_STORE_CTX_get_error\<close>) and that data
  (\<^verbatim>\<open>CertStatusExData::fromSSL_X509_STORE_CTX\<close>).
\<close>

record CertStatusExData =
  status_check_enabled :: bool
  peer_statuses :: "64 word \<rightharpoonup> CertificateStatus"

record X509_STORE_CTX =
  current_cert :: X509
  ctx_error :: int
  ex_data :: CertStatusExData

text \<open>
  Modelled from the spec: \<^verbatim>\<open>CertStatusExData::getCachedPeerStatus(X509*)\<close> and
  \<^verbatim>\<open>setCachedPeerStatus(X509*, shared_ptr)\<close> are declared outside the sources at
  hand. The specification keeps one cache entry per observed peer certificate serial, and
  the comment on the overload of \<^verbatim>\<open>setCachedPeerStatus\<close> that is at hand says that it
  sets the peer status for the given serial number and returns the peer status that was
  set.
\<close>

definition getCachedPeerStatus :: "CertStatusExData \<Rightarrow> X509 \<Rightarrow> CertificateStatus option" where
  "getCachedPeerStatus pva_ex_data cert_ptr = peer_statuses pva_ex_data (serial_number cert_ptr)"

definition setCachedPeerStatus ::
  "CertStatusExData \<Rightarrow> X509 \<Rightarrow> CertificateStatus \<Rightarrow> CertificateStatus \<times> CertStatusExData" where
  "setCachedPeerStatus pva_ex_data cert_ptr st =
     (st, pva_ex_data\<lparr>peer_statuses := (peer_statuses pva_ex_data)(serial_number cert_ptr \<mapsto> st)\<rparr>)"

text \<open>
  How a call of \<^verbatim>\<open>ossl_verify\<close> ends: it returns an \<^verbatim>\<open>int\<close>, or it ends the process
  with \<^verbatim>\<open>exit\<close>, or an exception that no handler of the function catches leaves it.
\<close>

datatype verify_result = Return int | Exit int | Throw error

text \<open>
  \<^verbatim>\<open>ossl_verify\<close>. The clock is read twice: by \<^verbatim>\<open>peer_status->isValid()\<close> when a
  cached status is found (\<open>now_isValid\<close>), and later by \<^verbatim>\<open>peer_status->isGood()\<close>
  (\<open>now_isGood\<close>). The result comes with the data of the TLS context, whose cache the
  call may have updated. The status is fetched for a copy of the certificate,
  \<^verbatim>\<open>getStatus(ossl_ptr<X509>(X509_dup(cert_ptr)))\<close>, and cached for the certificate
  itself. The handlers of the \<^verbatim>\<open>try\<close> block are
  \<^verbatim>\<open>catch (certs::CertStatusNoExtensionException &e)\<close>, which calls \<^verbatim>\<open>exit(1)\<close>,
  and then \<^verbatim>\<open>catch (std::runtime_error &e)\<close>, which returns 0. Logging is left out.
\<close>

definition ossl_verify ::
  "(string \<Rightarrow> get_failure + CertificateStatus) \<Rightarrow> time_t \<Rightarrow> time_t \<Rightarrow> int
   \<Rightarrow> X509_STORE_CTX \<Rightarrow> verify_result \<times> CertStatusExData" where
  "ossl_verify cms_get now_isValid now_isGood preverify_ok x509_ctx =
     (let cert_ptr = current_cert x509_ctx;
          pva_ex_data = ex_data x509_ctx
      in
      if preverify_ok \<noteq> 0 then
        if \<not> statusMonitoringRequired cert_ptr then (Return preverify_ok, pva_ex_data)
        else if status_check_enabled pva_ex_data then
          (let fetch = (case getStatus cms_get (X509_dup cert_ptr) of
                          Inl e \<Rightarrow> Inl e
                        | Inr st \<Rightarrow> Inr (setCachedPeerStatus pva_ex_data cert_ptr st))
           in
           case (case getCachedPeerStatus pva_ex_data cert_ptr of
                   None \<Rightarrow> fetch
                 | Some cached \<Rightarrow>
                     if \<not> isValid cached now_isValid then fetch
                     else Inr (cached, pva_ex_data)) of
             Inl e \<Rightarrow>
               if is_CertStatusNoExtensionException e then (Exit 1, pva_ex_data)
               else if is_runtime_error e then (Return 0, pva_ex_data)
               else (Throw e, pva_ex_data)
           | Inr (peer_status, pva_ex_data') \<Rightarrow>
               if \<not> isGood peer_status now_isGood then (Return 0, pva_ex_data')
               else (Return preverify_ok, pva_ex_data'))
        else (Return preverify_ok, pva_ex_data)
      else
        (let err = ctx_error x509_ctx in
         if err = X509_V_ERR_UNABLE_TO_GET_ISSUER_CERT_LOCALLY
            \<or> err = X509_V_ERR_DEPTH_ZERO_SELF_SIGNED_CERT
            \<or> err = X509_V_ERR_SELF_SIGNED_CERT_IN_CHAIN
         then (Return preverify_ok, pva_ex_data)
         else (Return preverify_ok, pva_ex_data)))"

text \<open>The cache gives no status to use: none is cached, or the one cached is stale.\<close>

definition must_fetch :: "X509_STORE_CTX \<Rightarrow> time_t \<Rightarrow> bool" where
  "must_fetch x509_ctx now_isValid =
     (case getCachedPeerStatus (ex_data x509_ctx) (current_cert x509_ctx) of
        None \<Rightarrow> True
      | Some cached \<Rightarrow> \<not> isValid cached now_isValid)"

text \<open>
  Values for the examples: a certificate with the status PV extension; one whose
  extension carries no data; a status that is GOOD until second 2000; a context with
  status checking enabled and an empty cache.
\<close>

definition example_cert :: X509 where
  "example_cert = \<lparr>subject_key_identifier = Some [0x27, 0x97, 0x5e, 0x6b, 0x01],
     PvaCertStatusURI_index = 3,
     PvaCertStatusURI_ext = Some \<lparr>extension_data =
        Some \<lparr>asn1_data = Some ''CERT:STATUS:27975e6b:0000000000000255'', asn1_length = 37\<rparr>\<rparr>,
     serial_number = 255\<rparr>"

definition example_cert_no_data :: X509 where
  "example_cert_no_data = example_cert\<lparr>PvaCertStatusURI_ext :=
     Some \<lparr>extension_data = Some \<lparr>asn1_data = None, asn1_length = 0\<rparr>\<rparr>\<rparr>"

definition example_good_status :: CertificateStatus where
  "example_good_status = \<lparr>ocsp_bytes = [0x30], ocsp_status = OCSPCertStatus OCSP_CERTSTATUS_GOOD,
     status_date = \<lparr>date_t = 1000\<rparr>, status_valid_until_date = \<lparr>date_t = 2000\<rparr>,
     revocation_date = \<lparr>date_t = 0\<rparr>, status = PVACertStatus VALID\<rparr>"

definition example_ctx :: "X509 \<Rightarrow> int \<Rightarrow> (64 word \<rightharpoonup> CertificateStatus) \<Rightarrow> X509_STORE_CTX" where
  "example_ctx cert err cache = \<lparr>current_cert = cert, ctx_error = err,
     ex_data = \<lparr>status_check_enabled = True, peer_statuses = cache\<rparr>\<rparr>"

definition cms_unreachable :: "string \<Rightarrow> get_failure + CertificateStatus" where
  "cms_unreachable uri = Inl (client_error ''Timeout'')"

section \<open>Dates (certstatus.h, src/unnamed/part_000)\<close>

text \<open>
  \<^verbatim>\<open>std::tm\<close>, with the fields that \<^verbatim>\<open>tmToTimeTUTC\<close> reads, and
  \<^verbatim>\<open>StatusDate::tmToTimeTUTC\<close>. Division and remainder are C's, which truncate
  towards zero (\<open>sdiv\<close>, \<open>smod\<close>). \<^verbatim>\<open>kMonthStartDays[tm.tm_mon]\<close> is read with
  \<open>tm_mon\<close> between 0 and 11, which is what \<^verbatim>\<open>ASN1_TIME_to_tm\<close> and
  \<^verbatim>\<open>std::get_time\<close> produce.
\<close>

record tm =
  tm_sec :: int
  tm_min :: int
  tm_hour :: int
  tm_mday :: int
  tm_mon :: int
  tm_year :: int

definition kMonthStartDays :: "int list" where
  "kMonthStartDays = [0, 31, 59, 90, 120, 151, 181, 212, 243, 273, 304, 334]"

definition tmToTimeTUTC :: "tm \<Rightarrow> time_t" where
  "tmToTimeTUTC t =
     (let year = 1900 + tm_year t;
          days0 = (year - 1970) * 365 + (year - 1969) sdiv 4
                    - (year - 1901) sdiv 100
                    + (year - 1601) sdiv 400;
          days1 = days0 + kMonthStartDays ! nat (tm_mon t);
          days2 = (if tm_mon t > 1
                      \<and> (year smod 4 = 0 \<and> (year smod 100 \<noteq> 0 \<or> year smod 400 = 0))
                   then days1 + 1 else days1);
          days3 = days2 + tm_mday t - 1
      in ((days3 * 24 + tm_hour t) * 60 + tm_min t) * 60 + tm_sec t)"

text \<open>
  An \<^verbatim>\<open>ASN1_TIME\<close> (or \<^verbatim>\<open>ASN1_GENERALIZEDTIME\<close>) is seen through
  \<^verbatim>\<open>ASN1_TIME_to_tm\<close>: the broken-down time, or \<open>None\<close> when the conversion fails.
  A pointer to one is an option. \<^verbatim>\<open>StatusDate::asn1TimeToTimeT\<close> and the constructor
  \<^verbatim>\<open>StatusDate(const ASN1_TIME*)\<close> follow.
\<close>

record ASN1_TIME =
  ASN1_TIME_to_tm :: "tm option"

definition asn1TimeToTimeT :: "ASN1_TIME option \<Rightarrow> error + time_t" where
  "asn1TimeToTimeT time =
     (case time of
        None \<Rightarrow> Inr 0
      | Some a \<Rightarrow>
          (case ASN1_TIME_to_tm a of
             None \<Rightarrow> Inl (runtime_error ''Failed to convert ASN1_TIME to tm structure'')
           | Some t \<Rightarrow> Inr (tmToTimeTUTC t)))"

definition StatusDate_of_ASN1_TIME :: "ASN1_TIME option \<Rightarrow> error + StatusDate" where
  "StatusDate_of_ASN1_TIME time =
     (case asn1TimeToTimeT time of Inl e \<Rightarrow> Inl e | Inr t \<Rightarrow> Inr \<lparr>date_t = t\<rparr>)"

text \<open>
  \<^verbatim>\<open>StatusDate::toTimeT\<close> and the constructor \<^verbatim>\<open>StatusDate(const std::string&)\<close>.
  \<open>get_time\<close> stands for \<^verbatim>\<open>std::get_time(&tm, CERT_TIME_FORMAT)\<close>: the broken-down
  time read from the string, or \<open>None\<close> when the stream fails.
\<close>

definition toTimeT :: "(string \<Rightarrow> tm option) \<Rightarrow> string \<Rightarrow> error + time_t" where
  "toTimeT get_time time_string =
     (if time_string = [] then Inr 0
      else (case get_time time_string of
              None \<Rightarrow> Inl (OCSPParseException ''Failed to parse date-time string.'')
            | Some t \<Rightarrow> Inr (tmToTimeTUTC t)))"

definition StatusDate_of_string :: "(string \<Rightarrow> tm option) \<Rightarrow> string \<Rightarrow> error + StatusDate" where
  "StatusDate_of_string get_time time_string =
     (case toTimeT get_time time_string of Inl e \<Rightarrow> Inl e | Inr t \<Rightarrow> Inr \<lparr>date_t = t\<rparr>)"

section \<open>Parsing a signed status (src/src/certstatusmanager.cpp)\<close>

text \<open>
  The OCSP response that OpenSSL decodes from the bytes, as far as the code reads it.
  A single response gives its certificate serial (through
  \<^verbatim>\<open>CertStatusFactory::ASN1ToUint64\<close>), and the status and the three times that
  \<^verbatim>\<open>OCSP_single_get0_status\<close> returns. A basic response gives whether it names a
  signer (\<^verbatim>\<open>OCSP_resp_get0_signer\<close>), whether the signer certificate is issued by
  itself (\<^verbatim>\<open>X509_check_issued(ca_cert, ca_cert) == X509_V_OK\<close>), the message of the
  exception of \<^verbatim>\<open>ossl::ensureTrusted(ca_cert, ca_chain)\<close> if it throws, the result of
  \<^verbatim>\<open>OCSP_basic_verify\<close>, and its single responses (\<^verbatim>\<open>OCSP_resp_get0\<close>).
\<close>

record OCSP_SINGLERESP =
  certid_serial :: "64 word"
  single_status :: ocspcertstatus_t
  revocation_time :: "ASN1_TIME option"
  this_update :: "ASN1_TIME option"
  next_update :: "ASN1_TIME option"

record OCSP_BASICRESP =
  resp_signer_found :: bool
  signer_self_issued :: bool
  ensureTrusted_error :: "string option"
  OCSP_basic_verify_result :: int
  single_responses :: "OCSP_SINGLERESP list"

record OCSP_RESPONSE =
  response_status :: int
  basic_response :: "OCSP_BASICRESP option"

definition OCSP_RESPONSE_STATUS_SUCCESSFUL :: int where
  "OCSP_RESPONSE_STATUS_SUCCESSFUL = 0"

text \<open>
  What the OpenSSL calls that allocate, decode or read the file system give: whether the
  call succeeds, and for \<^verbatim>\<open>d2i_OCSP_RESPONSE_bio\<close> the response decoded from the
  bytes or \<open>None\<close>.
\<close>

record openssl_env =
  BIO_new_mem_buf_ok :: bool
  d2i_OCSP_RESPONSE_bio :: "8 word list \<Rightarrow> OCSP_RESPONSE option"
  X509_STORE_new_ok :: bool
  X509_STORE_set_default_paths_ok :: bool
  X509_STORE_load_locations_ok :: "string \<Rightarrow> bool"
  X509_STORE_CTX_new_ok :: bool
  X509_STORE_CTX_init_ok :: bool
  X509_STORE_add_cert_ok :: bool

definition getOCSPResponse :: "openssl_env \<Rightarrow> 8 word list \<Rightarrow> error + OCSP_RESPONSE" where
  "getOCSPResponse env bytes =
     (if \<not> BIO_new_mem_buf_ok env
      then Inl (OCSPParseException ''Failed to create BIO for OCSP response'')
      else (case d2i_OCSP_RESPONSE_bio env bytes of
              None \<Rightarrow> Inl (OCSPParseException ''Failed to parse OCSP response'')
            | Some ocsp_response \<Rightarrow> Inr ocsp_response))"

text \<open>
  \<^verbatim>\<open>CertStatusManager::verifyOCSPResponse\<close>. The exception of \<^verbatim>\<open>ensureTrusted\<close> is
  caught and thrown again as an \<^verbatim>\<open>OCSPParseException\<close>; a certificate of the chain
  that cannot be added to the store is only logged.
\<close>

definition verifyOCSPResponse ::
  "openssl_env \<Rightarrow> OCSP_BASICRESP \<Rightarrow> bool \<Rightarrow> string \<Rightarrow> error + bool" where
  "verifyOCSPResponse env basic allow_self_signed_ca custom_ca_dir =
     (if \<not> resp_signer_found basic
      then Inl (OCSPParseException ''Failed to get signer certificate from OCSP response'')
      else
        (case (if \<not> allow_self_signed_ca \<or> \<not> signer_self_issued basic
               then ensureTrusted_error basic else None) of
           Some what \<Rightarrow> Inl (OCSPParseException (''verifying OCSP response: '' @ what))
         | None \<Rightarrow>
             if \<not> X509_STORE_new_ok env
             then Inl (OCSPParseException
                         ''Failed to create X509_STORE to verify OCSP response'')
             else if \<not> X509_STORE_set_default_paths_ok env
             then Inl (OCSPParseException
                 ''Failed to load system default CA certificates to verify OCSP response'')
             else if custom_ca_dir \<noteq> [] \<and> \<not> X509_STORE_load_locations_ok env custom_ca_dir
             then Inl (OCSPParseException
                 (''Failed to load CA certificates from custom directory: '' @ custom_ca_dir))
             else if \<not> X509_STORE_CTX_new_ok env
             then Inl (OCSPParseException
                         ''Failed to create X509_STORE_CTX to verify OCSP response'')
             else if \<not> X509_STORE_CTX_init_ok env
             then Inl (OCSPParseException
                         ''Failed to initialize X509_STORE_CTX to verify CA certificate'')
             else if \<not> X509_STORE_add_cert_ok env
             then Inl (OCSPParseException
                 ''Failed to add issuer certificate to X509_STORE to verify OCSP response'')
             else if OCSP_basic_verify_result basic \<le> 0
             then Inl (OCSPParseException ''OCSP_basic_verify failed'')
             else Inr True))"

text \<open>
  OpenSSL's \<^verbatim>\<open>OCSP_check_validity(thisupd, nextupd, nsec, maxsec)\<close>, a library function:
  1 (here \<open>True\<close>) when \<open>thisupd\<close> is a well-formed time that is not more than \<open>nsec\<close>
  seconds after the current time and, for \<open>maxsec \<ge> 0\<close>, later than \<open>maxsec\<close> seconds
  before it, and \<open>nextupd\<close>, if there is one, is well formed, later than \<open>nsec\<close> seconds
  before the current time and not before \<open>thisupd\<close>; 0 otherwise. The times are compared
  as seconds since the epoch.
\<close>

definition ASN1_TIME_seconds :: "ASN1_TIME \<Rightarrow> time_t option" where
  "ASN1_TIME_seconds a = map_option tmToTimeTUTC (ASN1_TIME_to_tm a)"

definition OCSP_check_validity ::
  "time_t \<Rightarrow> ASN1_TIME option \<Rightarrow> ASN1_TIME option \<Rightarrow> int \<Rightarrow> int \<Rightarrow> bool" where
  "OCSP_check_validity now thisupd nextupd nsec maxsec =
     (case Option.bind thisupd ASN1_TIME_seconds of
        None \<Rightarrow> False
      | Some this \<Rightarrow>
          \<not> (this > now + nsec) \<and> \<not> (maxsec \<ge> 0 \<and> this \<le> now - maxsec)
          \<and> (case nextupd of
                None \<Rightarrow> True
              | Some n \<Rightarrow>
                  (case ASN1_TIME_seconds n of
                     None \<Rightarrow> False
                   | Some next \<Rightarrow> \<not> (next \<le> now - nsec) \<and> \<not> (next < this))))"

text \<open>
  \<^verbatim>\<open>struct ParsedOCSPStatus\<close>; its fields carry the prefix \<open>parsed_\<close>, the names
  without it being those of \<open>OCSPStatus\<close>.
\<close>

record ParsedOCSPStatus =
  parsed_serial :: "64 word"
  parsed_ocsp_status :: CertStatus
  parsed_status_date :: StatusDate
  parsed_status_valid_until_date :: StatusDate
  parsed_revocation_date :: StatusDate

text \<open>
  \<^verbatim>\<open>CertStatusManager::parse\<close>. \<open>now\<close> is the clock that \<^verbatim>\<open>OCSP_check_validity\<close>
  reads. The statement \<^verbatim>\<open>OCSP_check_validity(this_update, next_update, 0, 5);\<close> stands
  alone: its result, \<open>validity\<close> below, is used nowhere. The returned struct is built
  from the serial, the status and the three times, each time through
  \<^verbatim>\<open>StatusDate(const ASN1_TIME*)\<close>.
\<close>

definition parse ::
  "openssl_env \<Rightarrow> time_t \<Rightarrow> 8 word list \<Rightarrow> bool \<Rightarrow> string \<Rightarrow> error + ParsedOCSPStatus" where
  "parse env now bytes allow_self_signed_ca custom_ca_dir =
     (case getOCSPResponse env bytes of
        Inl e \<Rightarrow> Inl e
      | Inr ocsp_response \<Rightarrow>
          if response_status ocsp_response \<noteq> OCSP_RESPONSE_STATUS_SUCCESSFUL
          then Inl (OCSPParseException ''OCSP response status not successful'')
          else
            (case basic_response ocsp_response of
               None \<Rightarrow> Inl (OCSPParseException ''Failed to get basic OCSP response'')
             | Some basic \<Rightarrow>
                 (case verifyOCSPResponse env basic allow_self_signed_ca custom_ca_dir of
                    Inl e \<Rightarrow> Inl e
                  | Inr verified \<Rightarrow>
                      (case single_responses basic of
                         [] \<Rightarrow> Inl (OCSPParseException ''No entries found in OCSP response'')
                       | single_response # others \<Rightarrow>
                           (let ocsp_status = single_status single_response;
                                validity = OCSP_check_validity now
                                  (this_update single_response) (next_update single_response) 0 5
                            in
                            if ocsp_status = OCSP_CERTSTATUS_REVOKED
                               \<and> revocation_time single_response = None
                            then Inl (OCSPParseException
                                        ''Revocation time not set when status is REVOKED'')
                            else
                              (case StatusDate_of_ASN1_TIME (this_update single_response) of
                                 Inl e \<Rightarrow> Inl e
                               | Inr sd \<Rightarrow>
                                   (case StatusDate_of_ASN1_TIME (next_update single_response) of
                                      Inl e \<Rightarrow> Inl e
                                    | Inr vu \<Rightarrow>
                                        (case StatusDate_of_ASN1_TIME
                                                (revocation_time single_response) of
                                           Inl e \<Rightarrow> Inl e
                                         | Inr rd \<Rightarrow>
                                             Inr \<lparr>parsed_serial = certid_serial single_response,
                                                  parsed_ocsp_status = OCSPCertStatus ocsp_status,
                                                  parsed_status_date = sd,
                                                  parsed_status_valid_until_date = vu,
                                                  parsed_revocation_date = rd\<rparr>))))))))"

text \<open>The single response that \<open>parse\<close> reads from a token, when the token has one.\<close>

definition token_single_response :: "openssl_env \<Rightarrow> 8 word list \<Rightarrow> OCSP_SINGLERESP option" where
  "token_single_response env bytes =
     (case d2i_OCSP_RESPONSE_bio env bytes of
        None \<Rightarrow> None
      | Some ocsp_response \<Rightarrow>
          (case basic_response ocsp_response of
             None \<Rightarrow> None
           | Some basic \<Rightarrow>
               (case single_responses basic of [] \<Rightarrow> None | single_response # others \<Rightarrow> Some single_response)))"

text \<open>
  Values for the examples. The times are 1 January 2024 at 00:00:00 and at 00:30:00 UTC
  (seconds 1704067200 and 1704069000) and 2 January 2024 at 00:00:00 (1704153600). The
  token is signed by a trusted signer and states GOOD from the first time to the second;
  \<open>example_env\<close> decodes every byte sequence to the response it is given.
\<close>

definition tm_2024_01_01 :: "int \<Rightarrow> int \<Rightarrow> tm" where
  "tm_2024_01_01 hour minute = \<lparr>tm_sec = 0, tm_min = minute, tm_hour = hour, tm_mday = 1,
     tm_mon = 0, tm_year = 124\<rparr>"

definition example_single :: OCSP_SINGLERESP where
  "example_single = \<lparr>certid_serial = 255, single_status = OCSP_CERTSTATUS_GOOD,
     revocation_time = None,
     this_update = Some \<lparr>ASN1_TIME_to_tm = Some (tm_2024_01_01 0 0)\<rparr>,
     next_update = Some \<lparr>ASN1_TIME_to_tm = Some (tm_2024_01_01 0 30)\<rparr>\<rparr>"

definition example_response :: "OCSP_SINGLERESP \<Rightarrow> OCSP_RESPONSE" where
  "example_response single = \<lparr>response_status = 0,
     basic_response = Some \<lparr>resp_signer_found = True, signer_self_issued = False,
       ensureTrusted_error = None, OCSP_basic_verify_result = 1,
       single_responses = [single]\<rparr>\<rparr>"

definition example_env :: "OCSP_RESPONSE \<Rightarrow> openssl_env" where
  "example_env response = \<lparr>BIO_new_mem_buf_ok = True,
     d2i_OCSP_RESPONSE_bio = (\<lambda>bytes. Some response),
     X509_STORE_new_ok = True, X509_STORE_set_default_paths_ok = True,
     X509_STORE_load_locations_ok = (\<lambda>dir. True), X509_STORE_CTX_new_ok = True,
     X509_STORE_CTX_init_ok = True, X509_STORE_add_cert_ok = True\<rparr>"

definition example_revoked :: OCSP_SINGLERESP where
  "example_revoked = example_single\<lparr>single_status := OCSP_CERTSTATUS_REVOKED,
     revocation_time := Some \<lparr>ASN1_TIME_to_tm = Some (tm_2024_01_01 0 0)\<rparr>\<rparr>"

definition example_revoked_no_time :: OCSP_SINGLERESP where
  "example_revoked_no_time = example_single\<lparr>single_status := OCSP_CERTSTATUS_REVOKED\<rparr>"

section \<open>Building a status from a PV value (certstatus.h, src/unnamed/part_000)\<close>

text \<open>
  The fields of the status PV value that the constructor
  \<^verbatim>\<open>CertificateStatus(const Value& status_value)\<close> reads:
  \<^verbatim>\<open>status.value.index\<close>, \<^verbatim>\<open>ocsp_response\<close>, \<^verbatim>\<open>ocsp_status_date\<close>,
  \<^verbatim>\<open>ocsp_certified_until\<close> and \<^verbatim>\<open>ocsp_revocation_date\<close>.
\<close>

record Value =
  status_value_index :: certstatus_t
  ocsp_response :: "8 word list"
  ocsp_status_date :: string
  ocsp_certified_until :: string
  ocsp_revocation_date :: string

text \<open>
  \<^verbatim>\<open>CertificateStatus(const certstatus_t status, const shared_array<const uint8_t>&
  ocsp_bytes) : OCSPStatus(ocsp_bytes), status(status)\<close>. The base constructor stores
  the bytes and calls \<^verbatim>\<open>OCSPStatus::init()\<close>, whose body is not among the sources at
  hand: it is the parameter \<open>init\<close>, which from the bytes gives the OCSP status and
  the three dates that it sets, or the exception that it throws.
\<close>

type_synonym OCSPStatus_init =
  "8 word list \<Rightarrow> error + (CertStatus \<times> StatusDate \<times> StatusDate \<times> StatusDate)"

definition CertificateStatus_of_bytes ::
  "OCSPStatus_init \<Rightarrow> certstatus_t \<Rightarrow> 8 word list \<Rightarrow> error + CertificateStatus" where
  "CertificateStatus_of_bytes init st bytes =
     (case init bytes of
        Inl e \<Rightarrow> Inl e
      | Inr (ocsp_st, sd, vu, rd) \<Rightarrow>
          Inr \<lparr>ocsp_bytes = bytes, ocsp_status = ocsp_st, status_date = sd,
               status_valid_until_date = vu, revocation_date = rd,
               status = PVACertStatus st\<rparr>)"

text \<open>\<^verbatim>\<open>CertificateStatus::selfConsistent\<close> and \<^verbatim>\<open>CertificateStatus::dateConsistent\<close>.\<close>

definition selfConsistent :: "CertificateStatus \<Rightarrow> bool" where
  "selfConsistent this =
     ((ocsp_status_eq (ocsp_status this) OCSP_CERTSTATUS_UNKNOWN
         \<and> \<not> (pva_status_eq (status this) VALID \<or> pva_status_eq (status this) REVOKED))
      \<or> (ocsp_status_eq (ocsp_status this) OCSP_CERTSTATUS_REVOKED
         \<and> pva_status_eq (status this) REVOKED)
      \<or> (ocsp_status_eq (ocsp_status this) OCSP_CERTSTATUS_GOOD
         \<and> pva_status_eq (status this) VALID))"

definition dateConsistent ::
  "CertificateStatus \<Rightarrow> StatusDate \<Rightarrow> StatusDate \<Rightarrow> StatusDate \<Rightarrow> bool" where
  "dateConsistent this status_date_value status_valid_until_date_value revocation_date_value =
     (StatusDate_eq (status_date this) status_date_value
      \<and> StatusDate_eq (status_valid_until_date this) status_valid_until_date_value
      \<and> StatusDate_eq (revocation_date this) revocation_date_value)"

text \<open>
  \<^verbatim>\<open>CertificateStatus(const Value& status_value)\<close>. With empty bytes the constructor
  returns at once. Otherwise \<^verbatim>\<open>!selfConsistent() || !dateConsistent(...)\<close> is
  evaluated: the three strings are converted to dates only when the status is self
  consistent, and a string that does not parse throws.
\<close>

definition CertificateStatus_of_Value ::
  "OCSPStatus_init \<Rightarrow> (string \<Rightarrow> tm option) \<Rightarrow> Value \<Rightarrow> error + CertificateStatus" where
  "CertificateStatus_of_Value init get_time status_value =
     (case CertificateStatus_of_bytes init (status_value_index status_value)
             (ocsp_response status_value) of
        Inl e \<Rightarrow> Inl e
      | Inr this \<Rightarrow>
          if ocsp_bytes this = [] then Inr this
          else if \<not> selfConsistent this
          then Inl (OCSPParseException
                      ''Certificate status does not match certified OCSP status'')
          else
            (case StatusDate_of_string get_time (ocsp_status_date status_value) of
               Inl e \<Rightarrow> Inl e
             | Inr d1 \<Rightarrow>
                 (case StatusDate_of_string get_time (ocsp_certified_until status_value) of
                    Inl e \<Rightarrow> Inl e
                  | Inr d2 \<Rightarrow>
                      (case StatusDate_of_string get_time (ocsp_revocation_date status_value) of
                         Inl e \<Rightarrow> Inl e
                       | Inr d3 \<Rightarrow>
                           if \<not> dateConsistent this d1 d2 d3
                           then Inl (OCSPParseException
                                  ''Certificate status does not match certified OCSP status'')
                           else Inr this))))"

text \<open>
  The wording of the specification, to compare the constructor with: the consistency
  invariants of a \<open>CertificateStatus\<close>.
\<close>

definition spec_status_invariants :: "CertificateStatus \<Rightarrow> bool" where
  "spec_status_invariants cs =
     ((ocsp_status_eq (ocsp_status cs) OCSP_CERTSTATUS_GOOD
         \<longleftrightarrow> pva_status_eq (status cs) VALID)
      \<and> (ocsp_status_eq (ocsp_status cs) OCSP_CERTSTATUS_REVOKED
         \<longleftrightarrow> pva_status_eq (status cs) REVOKED)
      \<and> (ocsp_status_eq (ocsp_status cs) OCSP_CERTSTATUS_UNKNOWN
         \<longrightarrow> \<not> pva_status_eq (status cs) VALID \<and> \<not> pva_status_eq (status cs) REVOKED))"

text \<open>
  Values for the examples: an \<open>init\<close> that reads every token as the given OCSP status
  with all dates at 0, a \<open>get_time\<close> that reads no string, and a PV value with the given
  status, one byte of token and empty date strings (which \<open>toTimeT\<close> reads as 0).
\<close>

definition example_init :: "ocspcertstatus_t \<Rightarrow> OCSPStatus_init" where
  "example_init ocsp_st bytes =
     Inr (OCSPCertStatus ocsp_st, \<lparr>date_t = 0\<rparr>, \<lparr>date_t = 0\<rparr>, \<lparr>date_t = 0\<rparr>)"

definition example_get_time :: "string \<Rightarrow> tm option" where
  "example_get_time time_string = None"

definition example_value :: "certstatus_t \<Rightarrow> Value" where
  "example_value st = \<lparr>status_value_index = st, ocsp_response = [0x30],
     ocsp_status_date = [], ocsp_certified_until = [], ocsp_revocation_date = []\<rparr>"

section \<open>Properties\<close>

subsection \<open>Comparing a status with an enum value\<close>

lemma certstatus_index_inj: "certstatus_index a = certstatus_index b \<longleftrightarrow> a = b"
  by (cases a; cases b) simp_all

lemma ocspcertstatus_index_inj: "ocspcertstatus_index a = ocspcertstatus_index b \<longleftrightarrow> a = b"
  by (cases a; cases b) simp_all

lemma pva_status_eq_PVACertStatus [simp]: "pva_status_eq (PVACertStatus a) b \<longleftrightarrow> a = b"
  by (simp add: pva_status_eq_def PVACertStatus_def certstatus_index_inj)

lemma ocsp_status_eq_OCSPCertStatus [simp]: "ocsp_status_eq (OCSPCertStatus a) b \<longleftrightarrow> a = b"
  by (simp add: ocsp_status_eq_def OCSPCertStatus_def ocspcertstatus_index_inj)

subsection \<open>Freshness and goodness of a status\<close>

text \<open>
  C6. For every status object and every current time \<open>now\<close>: the status is reported
  valid (\<open>isValid\<close>) iff \<open>now\<close> is before its valid-until date, and reported good
  (\<open>isGood\<close>) iff it is valid and its OCSP status equals \<open>OCSP_CERTSTATUS_GOOD\<close>.
  The second conjunct is also read on a status whose OCSP status was built from an enum
  value \<open>x\<close>: it is good iff \<open>now\<close> is before the valid-until date and \<open>x\<close> is GOOD.
\<close>

theorem isValid_isGood_spec:
  "isValid st now = (now < date_t (status_valid_until_date st))
   \<and> isGood st now = (isValid st now \<and> ocsp_status_eq (ocsp_status st) OCSP_CERTSTATUS_GOOD)
   \<and> isGood (st\<lparr>ocsp_status := OCSPCertStatus x\<rparr>) now
       = (now < date_t (status_valid_until_date st) \<and> x = OCSP_CERTSTATUS_GOOD)"
  by (simp add: isValid_def isGood_def)


subsection \<open>Digits\<close>

lemma format_unsigned_small: "n < b \<Longrightarrow> format_unsigned b n = [digit_char n]"
  by (simp add: format_unsigned.simps)

lemma format_unsigned_step:
  "2 \<le> b \<Longrightarrow> b \<le> n \<Longrightarrow>
   format_unsigned b n = format_unsigned b (n div b) @ [digit_char (n mod b)]"
  by (simp add: format_unsigned.simps)

lemma format_unsigned_nonempty [simp]: "format_unsigned b n \<noteq> []"
  by (subst format_unsigned.simps) simp

lemma digit_char_dec:
  assumes "d < 10"
  shows "digit_char d \<in> set ''0123456789''" and "digit_value (digit_char d) = d"
    and "0 < d \<Longrightarrow> digit_char d \<noteq> CHR ''0''"
proof -
  from assms have "d \<in> {0, 1, 2, 3, 4, 5, 6, 7, 8, 9}" by auto
  then show "digit_char d \<in> set ''0123456789''" and "digit_value (digit_char d) = d"
    and "0 < d \<Longrightarrow> digit_char d \<noteq> CHR ''0''"
    by (auto simp: digit_char_def hex_digit_chars_def digit_value_def)
qed

lemma digit_char_hex:
  assumes "d < 16"
  shows "digit_char d \<in> set ''0123456789abcdef''"
proof -
  have "\<forall>k \<in> set [0..<16]. digit_char k \<in> set ''0123456789abcdef''"
    by code_simp
  with assms show ?thesis by simp
qed

lemma format_unsigned10_digits: "set (format_unsigned 10 n) \<subseteq> set ''0123456789''"
proof (induction "10::nat" n rule: format_unsigned.induct)
  case (1 n)
  show ?case
  proof (cases "10 \<le> n")
    case True
    have "digit_char (n mod 10) \<in> set ''0123456789''" by (rule digit_char_dec) simp
    with True "1.hyps" show ?thesis by (simp add: format_unsigned_step)
  next
    case False
    then have "digit_char n \<in> set ''0123456789''" by (intro digit_char_dec) simp
    with False show ?thesis by (simp add: format_unsigned_small)
  qed
qed

lemma dec_value_snoc: "dec_value (str @ [c]) = 10 * dec_value str + digit_value c"
  by (simp add: dec_value_def)

lemma dec_value_format_unsigned10: "dec_value (format_unsigned 10 n) = n"
proof (induction "10::nat" n rule: format_unsigned.induct)
  case (1 n)
  show ?case
  proof (cases "10 \<le> n")
    case True
    with "1.hyps" show ?thesis
      by (simp add: format_unsigned_step dec_value_snoc digit_char_dec)
  next
    case False
    then show ?thesis by (simp add: format_unsigned_small dec_value_def digit_char_dec)
  qed
qed

lemma dec_value_zeros: "dec_value (replicate k (CHR ''0'') @ str) = dec_value str"
proof -
  have "foldl (\<lambda>acc c. 10 * acc + digit_value c) 0 (replicate k (CHR ''0'')) = 0"
    by (induction k) (simp_all add: digit_value_def)
  then show ?thesis by (simp add: dec_value_def)
qed

lemma hd_format_unsigned10: "0 < n \<Longrightarrow> hd (format_unsigned 10 n) \<noteq> CHR ''0''"
proof (induction "10::nat" n rule: format_unsigned.induct)
  case (1 n)
  show ?case
  proof (cases "10 \<le> n")
    case True
    then have "0 < n div 10" by simp
    with True "1.hyps" show ?thesis by (simp add: format_unsigned_step)
  next
    case False
    with "1.prems" show ?thesis by (simp add: format_unsigned_small digit_char_dec)
  qed
qed

lemma length_format_unsigned_le:
  "2 \<le> b \<Longrightarrow> 0 < k \<Longrightarrow> n < b ^ k \<Longrightarrow> length (format_unsigned b n) \<le> k"
proof (induction b n arbitrary: k rule: format_unsigned.induct)
  case (1 b n)
  show ?case
  proof (cases "b \<le> n")
    case True
    obtain j where k: "k = Suc j" using "1.prems" by (cases k) auto
    have "0 < j" using True "1.prems" k by (cases j) auto
    moreover have "n div b < b ^ j"
      using "1.prems" k by (simp add: less_mult_imp_div_less mult.commute)
    ultimately have "length (format_unsigned b (n div b)) \<le> j"
      using "1.IH" "1.prems" True by simp
    then show ?thesis using True "1.prems" k by (simp add: format_unsigned_step)
  next
    case False
    then show ?thesis using "1.prems" by (simp add: format_unsigned_small)
  qed
qed

lemma length_format_unsigned_gt:
  "2 \<le> b \<Longrightarrow> b ^ k \<le> n \<Longrightarrow> k < length (format_unsigned b n)"
proof (induction b n arbitrary: k rule: format_unsigned.induct)
  case (1 b n)
  show ?case
  proof (cases "b \<le> n")
    case True
    show ?thesis
    proof (cases k)
      case 0
      then show ?thesis using True "1.prems" by (simp add: format_unsigned_step)
    next
      case (Suc j)
      have "b ^ j \<le> n div b"
        using "1.prems" Suc by (simp add: less_eq_div_iff_mult_less_eq mult.commute)
      then have "j < length (format_unsigned b (n div b))"
        using "1.IH" "1.prems" True by simp
      then show ?thesis using True "1.prems" Suc by (simp add: format_unsigned_step)
    qed
  next
    case False
    have "k = 0"
    proof (rule ccontr)
      assume "k \<noteq> 0"
      then have "b ^ 1 \<le> b ^ k" using "1.prems" by (intro power_increasing) auto
      then show False using False "1.prems" by simp
    qed
    then show ?thesis using False by (simp add: format_unsigned_small)
  qed
qed

lemma hex2_digits: "hex2 b = [digit_char (unat b div 16), digit_char (unat b mod 16)]"
proof -
  have lt: "unat b < 256" using unsigned_less [of b, where ?'a = nat] by simp
  show ?thesis
  proof (cases "unat b < 16")
    case True
    then show ?thesis
      by (simp add: hex2_def setw_setfill_def format_unsigned_small digit_char_def
          hex_digit_chars_def)
  next
    case False
    then have "unat b div 16 < 16" using lt by simp
    with False show ?thesis
      by (simp add: hex2_def setw_setfill_def format_unsigned_step format_unsigned_small)
  qed
qed

lemma length_hex2 [simp]: "length (hex2 b) = 2"
  by (simp add: hex2_digits)

lemma spec_hex_of_octets_hex2: "spec_hex_of_octets octets = concat (map hex2 octets)"
  unfolding spec_hex_of_octets_def by (induction octets) (simp_all add: hex2_digits)

lemma spec_hex_of_octets_chars: "set (spec_hex_of_octets octets) \<subseteq> set ''0123456789abcdef''"
proof -
  have "digit_char (unat b div 16) \<in> set ''0123456789abcdef''" for b :: "8 word"
  proof (rule digit_char_hex)
    have "unat b < 256" using unsigned_less [of b, where ?'a = nat] by simp
    then show "unat b div 16 < 16" by simp
  qed
  moreover have "digit_char (unat b mod 16) \<in> set ''0123456789abcdef''" for b :: "8 word"
    by (rule digit_char_hex) simp
  ultimately show ?thesis
    unfolding spec_hex_of_octets_def by (induction octets) auto
qed

lemma length_spec_hex_of_octets: "length (spec_hex_of_octets octets) = 2 * length octets"
  unfolding spec_hex_of_octets_def by (induction octets) auto

subsection \<open>The issuer id\<close>

lemma getIssuerId_loop_inv:
  "ss = concat (map hex2 (take i buf)) \<Longrightarrow> i \<le> length buf \<Longrightarrow> 2 * i \<le> 8 \<Longrightarrow>
   getIssuerId_loop buf i ss = take 8 (concat (map hex2 buf))"
proof (induction buf i ss rule: getIssuerId_loop.induct)
  case (1 buf i ss)
  have len: "length ss = 2 * i"
    using "1.prems" by (simp add: length_concat comp_def sum_list_triv min_def)
  show ?case
  proof (cases "i < length buf \<and> length ss < 8")
    case True
    have "ss @ hex2 (buf ! i) = concat (map hex2 (take (Suc i) buf))"
      using True "1.prems" by (simp add: take_Suc_conv_app_nth)
    moreover have "Suc i \<le> length buf" using True by simp
    moreover have "2 * Suc i \<le> 8" using True len by simp
    ultimately have
      "getIssuerId_loop buf (Suc i) (ss @ hex2 (buf ! i)) = take 8 (concat (map hex2 buf))"
      using "1.IH" True by blast
    then show ?thesis using True by (subst getIssuerId_loop.simps) simp
  next
    case False
    then have stop: "getIssuerId_loop buf i ss = ss"
      by (subst getIssuerId_loop.simps) auto
    from False consider "i = length buf" | "length ss = 8"
      using "1.prems" len by force
    then show ?thesis
    proof cases
      case 1
      then have "ss = concat (map hex2 buf)" using "1.prems" by simp
      moreover have "length ss \<le> 8" using len "1.prems" by simp
      ultimately show ?thesis using stop by simp
    next
      case 2
      have "concat (map hex2 buf) = ss @ concat (map hex2 (drop i buf))"
        using "1.prems"(1) by (metis append_take_drop_id concat_append map_append)
      then show ?thesis using stop 2 by simp
    qed
  qed
qed

text \<open>
  C8. For a certificate with a Subject Key Identifier, \<open>getIssuerId\<close> returns exactly
  the first 8 characters of the SKI octets written in lower-case hexadecimal (all of them
  when the SKI has fewer than 4 octets), so at most 8 characters, each one of
  \<open>0123456789abcdef\<close>; for a certificate without the extension it fails with an error.
\<close>

theorem getIssuerId_spec:
  "getIssuerId (cert\<lparr>subject_key_identifier := Some skid\<rparr>)
     = Inr (take 8 (spec_hex_of_octets skid))
   \<and> set (take 8 (spec_hex_of_octets skid)) \<subseteq> set ''0123456789abcdef''
   \<and> length (take 8 (spec_hex_of_octets skid)) = min 8 (2 * length skid)
   \<and> getIssuerId (cert\<lparr>subject_key_identifier := None\<rparr>)
     = Inl (runtime_error ''Failed to get Subject Key Identifier.'')"
proof -
  have "getIssuerId_loop skid 0 [] = take 8 (spec_hex_of_octets skid)"
    by (simp add: getIssuerId_loop_inv spec_hex_of_octets_hex2)
  moreover have "set (take 8 (spec_hex_of_octets skid)) \<subseteq> set ''0123456789abcdef''"
    using spec_hex_of_octets_chars [of skid] set_take_subset [of 8 "spec_hex_of_octets skid"]
    by blast
  moreover have "length (take 8 (spec_hex_of_octets skid)) = min 8 (2 * length skid)"
    by (simp add: length_spec_hex_of_octets min.commute)
  ultimately show ?thesis by (simp add: getIssuerId_def)
qed

subsection \<open>The status PV name\<close>

lemma spec_hex_fixed_numeral:
  "spec_hex_fixed (numeral k) n
     = spec_hex_fixed (pred_numeral k) (n div 16) @ [digit_char (n mod 16)]"
  by (metis numeral_eq_Suc spec_hex_fixed.simps(2))

lemma makeStatusURI_255:
  "makeStatusURI ''27975e6b'' 255 = ''CERT:STATUS:27975e6b:0000000000000255''"
  by code_simp

lemma spec_status_pv_name_255:
  "spec_status_pv_name ''27975e6b'' 255 = ''CERT:STATUS:27975e6b:00000000000000ff''"
  by (simp add: spec_status_pv_name_def spec_hex_fixed_numeral digit_char_def
      hex_digit_chars_def)

text \<open>
  C1, as stated, fails: for issuer id \<open>27975e6b\<close> and serial 255 the name produced ends
  in \<open>0000000000000255\<close>, the serial in decimal, and not in the 16 hexadecimal digits
  \<open>00000000000000ff\<close>.
\<close>

theorem makeStatusURI_not_hex_counterexample:
  "makeStatusURI ''27975e6b'' 255 \<noteq> spec_status_pv_name ''27975e6b'' 255"
  by (simp add: makeStatusURI_255 spec_status_pv_name_255)

text \<open>
  C1, amended. For every issuer id and every 64-bit serial, the name produced is
  \<open>CERT:STATUS:\<close>, the issuer id, a colon, and a string \<open>d\<close> of decimal digits that
  denotes the serial and is zero-padded on the left to 16 characters: \<open>d\<close> has exactly 16
  characters when the serial is below \<open>10^16\<close>, and is the serial's own decimal digits
  (more than 16, no leading zero) otherwise.
\<close>

theorem makeStatusURI_decimal:
  "\<exists>d. makeStatusURI issuer_id serial = ''CERT:STATUS:'' @ issuer_id @ '':'' @ d
     \<and> set d \<subseteq> set ''0123456789''
     \<and> dec_value d = unat serial
     \<and> 16 \<le> length d
     \<and> (unat serial < 10 ^ 16 \<longrightarrow> length d = 16)
     \<and> (10 ^ 16 \<le> unat serial \<longrightarrow> hd d \<noteq> CHR ''0'')"
proof -
  let ?n = "unat serial"
  let ?d = "setw_setfill 16 (CHR ''0'') (format_unsigned 10 ?n)"
  have uri: "makeStatusURI issuer_id serial = ''CERT:STATUS:'' @ issuer_id @ '':'' @ ?d"
    by (simp add: makeStatusURI_def GET_MONITOR_CERT_STATUS_ROOT_def)
  have digits: "set ?d \<subseteq> set ''0123456789''"
    using format_unsigned10_digits [of ?n] by (auto simp: setw_setfill_def)
  have val: "dec_value ?d = ?n"
    by (simp add: setw_setfill_def dec_value_zeros dec_value_format_unsigned10)
  have len: "16 \<le> length ?d"
    by (simp add: setw_setfill_def)
  have small: "length ?d = 16" if "?n < 10 ^ 16"
    using length_format_unsigned_le [of 10 16 ?n] that by (simp add: setw_setfill_def)
  have big: "hd ?d \<noteq> CHR ''0''" if "10 ^ 16 \<le> ?n"
  proof -
    have "16 < length (format_unsigned 10 ?n)"
      using length_format_unsigned_gt [of 10 16 ?n] that by simp
    then have "?d = format_unsigned 10 ?n" by (simp add: setw_setfill_def)
    moreover have "0 < ?n" using that by (simp add: order.strict_trans2 [of 0 "10 ^ 16"])
    ultimately show ?thesis using hd_format_unsigned10 by simp
  qed
  from uri digits val len small big show ?thesis by blast
qed

theorem makeStatusURI_decimal_witness:
  "unat (255 :: 64 word) < 10 ^ 16
   \<and> (\<exists>d. makeStatusURI ''27975e6b'' 255 = ''CERT:STATUS:'' @ ''27975e6b'' @ '':'' @ d
          \<and> dec_value d = 255 \<and> length d = 16)"
proof -
  have small: "unat (255 :: 64 word) < 10 ^ 16" by simp
  from makeStatusURI_decimal [of "''27975e6b''" 255] obtain d where
    "makeStatusURI ''27975e6b'' 255 = ''CERT:STATUS:'' @ ''27975e6b'' @ '':'' @ d"
    "dec_value d = unat (255 :: 64 word)"
    "unat (255 :: 64 word) < 10 ^ 16 \<longrightarrow> length d = 16"
    by blast
  with small show ?thesis by auto
qed

subsection \<open>The sweep queries\<close>

text \<open>
  C7, as stated, fails at the boundary: at \<open>now = not_after\<close> (here 100) the row is
  selected for the transition to EXPIRED, although \<open>now > not_after\<close> does not hold.
\<close>

theorem SQL_CERT_TO_EXPIRED_boundary_counterexample:
  "col_serial example_row \<in> set (SQL_CERT_TO_EXPIRED 100 [example_row])
   \<and> \<not> (100 > col_not_after example_row)"
  by (simp add: SQL_CERT_TO_EXPIRED_def example_row_def)

text \<open>
  C7, amended. The sweep query for the transition to VALID selects a serial exactly when
  a row with that serial has \<open>not_before \<le> now < not_after\<close>, and the query for the
  transition to EXPIRED selects it exactly when a row with that serial has
  \<open>now \<ge> not_after\<close>; so every row is selected by the second query from the second
  on at which the first one stops selecting it.
\<close>

theorem sweep_queries_select:
  "(s \<in> set (SQL_CERT_TO_VALID now certs)
      \<longleftrightarrow> (\<exists>r. r \<in> set certs \<and> col_serial r = s \<and> now \<ge> col_not_before r
                \<and> now < col_not_after r))
   \<and> (s \<in> set (SQL_CERT_TO_EXPIRED now certs)
      \<longleftrightarrow> (\<exists>r. r \<in> set certs \<and> col_serial r = s \<and> now \<ge> col_not_after r))"
  by (auto simp: SQL_CERT_TO_VALID_def SQL_CERT_TO_EXPIRED_def)

theorem sweep_queries_select_witness:
  "7 \<in> set (SQL_CERT_TO_VALID 99 [example_row])
   \<and> 7 \<notin> set (SQL_CERT_TO_EXPIRED 99 [example_row])
   \<and> 7 \<notin> set (SQL_CERT_TO_VALID 100 [example_row])
   \<and> 7 \<in> set (SQL_CERT_TO_EXPIRED 100 [example_row])"
  using sweep_queries_select [of 7 99 "[example_row]"]
    sweep_queries_select [of 7 100 "[example_row]"]
  by (simp add: example_row_def)

subsection \<open>Exit codes of the certificate tool\<close>

lemma main_option_errors:
  "CLI11_PARSE_exit run = None \<Longrightarrow> \<not> help_flag run \<Longrightarrow> \<not> show_version run \<Longrightarrow>
   password_flag run \<Longrightarrow> cert_file run = [] \<Longrightarrow> main run = 1"
  by (simp add: main_def)

lemma main_invalid_format:
  "CLI11_PARSE_exit run = None \<Longrightarrow> \<not> help_flag run \<Longrightarrow> \<not> show_version run \<Longrightarrow>
   \<not> password_flag run \<Longrightarrow> cert_file run = [] \<Longrightarrow> format_str run = ''xml'' \<Longrightarrow>
   main run = 6"
  by (simp add: main_def stringToFormat_def)

lemma main_timeout:
  "CLI11_PARSE_exit run = None \<Longrightarrow> \<not> help_flag run \<Longrightarrow> \<not> show_version run \<Longrightarrow>
   \<not> password_flag run \<Longrightarrow> cert_file run = [] \<Longrightarrow> format_str run = [] \<Longrightarrow>
   build_error run = None \<Longrightarrow> exec_error run = None \<Longrightarrow> done_wait run = TimedOut \<Longrightarrow>
   main run = 4"
  by (simp add: main_def)

text \<open>
  C9 does not hold of the code. A run that asks the status of a certificate by its id and
  gets the answer of the CMS ends with exit code 5, the code of a user interrupt, and not
  0; a run that reads the id from a certificate file and is interrupted by the user ends
  with 0, and not 5. After \<^verbatim>\<open>done.wait\<close> has returned true, \<^verbatim>\<open>main\<close> chooses
  between 0 and 5 by \<^verbatim>\<open>issuer_serial_string.empty()\<close>, not by what signalled the
  event.
\<close>

theorem main_exit_code_after_wait:
  "main run_status_by_id = 5 \<and> main run_file_interrupted = 0"
  by (simp add: main_def run_status_by_id_def run_file_interrupted_def)

subsection \<open>The TLS verify callback\<close>

text \<open>
  C3 does not hold of the code. When the pre-verification failed (\<open>preverify_ok = 0\<close>),
  \<open>ossl_verify\<close> returns 0, reject, whatever the verification error is: also for the
  three self-signed-chain errors, whose branch is commented ``Accept self-signed
  certificates'' and returns \<open>preverify_ok\<close>, which is 0 there. The data of the TLS
  context is left as it was.
\<close>

theorem ossl_verify_preverify_failed:
  "ossl_verify cms_get now_isValid now_isGood 0 x509_ctx = (Return 0, ex_data x509_ctx)
   \<and> fst (ossl_verify cms_get now_isValid now_isGood 0
            (example_ctx example_cert X509_V_ERR_DEPTH_ZERO_SELF_SIGNED_CERT Map.empty))
       = Return 0"
  by (simp add: ossl_verify_def)

lemma statusMonitoringRequired_shouldMonitor:
  "statusMonitoringRequired certificate \<Longrightarrow> shouldMonitor certificate"
  by (auto simp: statusMonitoringRequired_def shouldMonitor_def getExtension_def Let_def
      split: sum.splits if_splits)

lemma ossl_verify_no_extension:
  "preverify_ok \<noteq> 0 \<Longrightarrow> \<not> statusMonitoringRequired (current_cert x509_ctx) \<Longrightarrow>
   fst (ossl_verify cms_get now_isValid now_isGood preverify_ok x509_ctx) = Return preverify_ok"
  by (simp add: ossl_verify_def)

lemma ossl_verify_cached_good:
  assumes "preverify_ok \<noteq> 0" and "statusMonitoringRequired (current_cert x509_ctx)"
    and "status_check_enabled (ex_data x509_ctx)"
    and "getCachedPeerStatus (ex_data x509_ctx) (current_cert x509_ctx) = Some cached"
    and "now_isValid \<le> now_isGood" and "isGood cached now_isGood"
  shows "fst (ossl_verify cms_get now_isValid now_isGood preverify_ok x509_ctx)
           = Return preverify_ok"
proof -
  have "isValid cached now_isValid"
    using assms(5,6) by (simp add: isGood_def isValid_def)
  with assms show ?thesis by (simp add: ossl_verify_def)
qed

lemma ossl_verify_cached_not_good:
  assumes "preverify_ok \<noteq> 0" and "statusMonitoringRequired (current_cert x509_ctx)"
    and "status_check_enabled (ex_data x509_ctx)"
    and "getCachedPeerStatus (ex_data x509_ctx) (current_cert x509_ctx) = Some cached"
    and "isValid cached now_isValid" and "\<not> isGood cached now_isGood"
  shows "fst (ossl_verify cms_get now_isValid now_isGood preverify_ok x509_ctx) = Return 0"
  using assms by (simp add: ossl_verify_def)

lemma ossl_verify_fetch:
  assumes "preverify_ok \<noteq> 0" and "statusMonitoringRequired (current_cert x509_ctx)"
    and "status_check_enabled (ex_data x509_ctx)"
    and "must_fetch x509_ctx now_isValid"
  shows "fst (ossl_verify cms_get now_isValid now_isGood preverify_ok x509_ctx) =
           (case getStatus cms_get (X509_dup (current_cert x509_ctx)) of
              Inl e \<Rightarrow> if is_CertStatusNoExtensionException e then Exit 1
                       else if is_runtime_error e then Return 0 else Throw e
            | Inr fetched \<Rightarrow> if isGood fetched now_isGood then Return preverify_ok
                             else Return 0)"
  using assms
  by (auto simp: ossl_verify_def must_fetch_def setCachedPeerStatus_def Let_def
      split: option.splits sum.splits)

lemma getStatusPvFromCert_X509_dup:
  assumes "statusMonitoringRequired cert"
  shows "\<exists>uri. getStatusPvFromCert (X509_dup cert) = Inr uri"
proof -
  from assms obtain extension where
    "PvaCertStatusURI_index cert \<ge> 0" "PvaCertStatusURI_ext cert = Some extension"
    by (auto simp: statusMonitoringRequired_def getExtension_def Let_def
        split: if_splits option.splits)
  then show ?thesis
    by (simp add: getStatusPvFromCert_def getExtension_def X509_dup_def
        split: option.splits)
qed

lemma getStatusPvFromCert_X509_dup_same:
  "getStatusPvFromCert cert = Inr uri \<Longrightarrow> getStatusPvFromCert (X509_dup cert) = Inr uri"
  by (auto simp: getStatusPvFromCert_def getExtension_def X509_dup_def Let_def
      split: if_splits option.splits sum.splits)

lemma get_failure_exception_caught:
  "is_runtime_error (get_failure_exception failure)"
  "\<not> is_CertStatusNoExtensionException (get_failure_exception failure)"
  by (cases failure; simp)+

lemma getStatus_X509_dup_error:
  assumes "statusMonitoringRequired cert" and "getStatus cms_get (X509_dup cert) = Inl e"
  shows "is_runtime_error e \<and> \<not> is_CertStatusNoExtensionException e"
proof -
  from assms(1) obtain uri where "getStatusPvFromCert (X509_dup cert) = Inr uri"
    using getStatusPvFromCert_X509_dup by blast
  with assms(2) obtain failure where "e = get_failure_exception failure"
    by (auto simp: getStatus_def split: sum.splits)
  then show ?thesis by (simp add: get_failure_exception_caught)
qed

lemma ossl_verify_fetch_fails:
  assumes "preverify_ok \<noteq> 0" and "statusMonitoringRequired (current_cert x509_ctx)"
    and "status_check_enabled (ex_data x509_ctx)"
    and "must_fetch x509_ctx now_isValid"
    and "getStatus cms_get (X509_dup (current_cert x509_ctx)) = Inl e"
  shows "fst (ossl_verify cms_get now_isValid now_isGood preverify_ok x509_ctx) = Return 0"
proof -
  have "is_runtime_error e \<and> \<not> is_CertStatusNoExtensionException e"
    using assms(2,5) by (rule getStatus_X509_dup_error)
  with assms show ?thesis by (simp add: ossl_verify_fetch)
qed

lemma example_cert_monitored:
  "statusMonitoringRequired example_cert" "statusMonitoringRequired example_cert_no_data"
  "getStatusPvFromCert example_cert = Inr ''CERT:STATUS:27975e6b:0000000000000255''"
  "getStatusPvFromCert (X509_dup example_cert) = Inr ''CERT:STATUS:27975e6b:0000000000000255''"
  "getStatusPvFromCert (X509_dup example_cert_no_data) = Inr []"
  by (simp_all add: statusMonitoringRequired_def getStatusPvFromCert_def getExtension_def
      example_cert_def example_cert_no_data_def X509_dup_def)

text \<open>
  C4. For every call of the hook with \<open>preverify_ok\<close> nonzero: if the certificate
  lacks the status PV extension the hook returns \<open>preverify_ok\<close> unchanged; otherwise,
  with status checking enabled, it returns \<open>preverify_ok\<close> (accept) if a cached peer
  status exists and is good, and it returns 0 (reject) whenever the status obtained is
  not good (the cached one, if it is still valid, or else the one freshly fetched) or
  the status cannot be fetched.
\<close>

theorem ossl_verify_preverify_ok:
  assumes "preverify_ok \<noteq> 0"
  shows
    "(\<not> statusMonitoringRequired (current_cert x509_ctx) \<longrightarrow>
        fst (ossl_verify cms_get now_isValid now_isGood preverify_ok x509_ctx)
          = Return preverify_ok)
     \<and> (statusMonitoringRequired (current_cert x509_ctx)
          \<and> status_check_enabled (ex_data x509_ctx) \<longrightarrow>
         (\<forall>cached. getCachedPeerStatus (ex_data x509_ctx) (current_cert x509_ctx) = Some cached
              \<and> now_isValid \<le> now_isGood \<and> isGood cached now_isGood \<longrightarrow>
            fst (ossl_verify cms_get now_isValid now_isGood preverify_ok x509_ctx)
              = Return preverify_ok)
         \<and> (\<forall>cached. getCachedPeerStatus (ex_data x509_ctx) (current_cert x509_ctx) = Some cached
              \<and> isValid cached now_isValid \<and> \<not> isGood cached now_isGood \<longrightarrow>
            fst (ossl_verify cms_get now_isValid now_isGood preverify_ok x509_ctx) = Return 0)
         \<and> (must_fetch x509_ctx now_isValid \<longrightarrow>
              (\<forall>fetched. getStatus cms_get (X509_dup (current_cert x509_ctx)) = Inr fetched
                  \<and> \<not> isGood fetched now_isGood \<longrightarrow>
                fst (ossl_verify cms_get now_isValid now_isGood preverify_ok x509_ctx)
                  = Return 0)
            \<and> (\<forall>e. getStatus cms_get (X509_dup (current_cert x509_ctx)) = Inl e \<longrightarrow>
                fst (ossl_verify cms_get now_isValid now_isGood preverify_ok x509_ctx)
                  = Return 0)))"
proof (intro conjI impI allI)
  assume "\<not> statusMonitoringRequired (current_cert x509_ctx)"
  with assms show "fst (ossl_verify cms_get now_isValid now_isGood preverify_ok x509_ctx)
      = Return preverify_ok"
    by (rule ossl_verify_no_extension)
next
  fix cached
  assume "statusMonitoringRequired (current_cert x509_ctx)
            \<and> status_check_enabled (ex_data x509_ctx)"
    and "getCachedPeerStatus (ex_data x509_ctx) (current_cert x509_ctx) = Some cached
            \<and> now_isValid \<le> now_isGood \<and> isGood cached now_isGood"
  with assms show "fst (ossl_verify cms_get now_isValid now_isGood preverify_ok x509_ctx)
      = Return preverify_ok"
    by (simp add: ossl_verify_cached_good)
next
  fix cached
  assume "statusMonitoringRequired (current_cert x509_ctx)
            \<and> status_check_enabled (ex_data x509_ctx)"
    and "getCachedPeerStatus (ex_data x509_ctx) (current_cert x509_ctx) = Some cached
            \<and> isValid cached now_isValid \<and> \<not> isGood cached now_isGood"
  with assms show "fst (ossl_verify cms_get now_isValid now_isGood preverify_ok x509_ctx)
      = Return 0"
    by (simp add: ossl_verify_cached_not_good)
next
  fix fetched
  assume "statusMonitoringRequired (current_cert x509_ctx)
            \<and> status_check_enabled (ex_data x509_ctx)"
    and "must_fetch x509_ctx now_isValid"
    and "getStatus cms_get (X509_dup (current_cert x509_ctx)) = Inr fetched
            \<and> \<not> isGood fetched now_isGood"
  with assms show "fst (ossl_verify cms_get now_isValid now_isGood preverify_ok x509_ctx)
      = Return 0"
    by (simp add: ossl_verify_fetch)
next
  fix e
  assume "statusMonitoringRequired (current_cert x509_ctx)
            \<and> status_check_enabled (ex_data x509_ctx)"
    and "must_fetch x509_ctx now_isValid"
    and "getStatus cms_get (X509_dup (current_cert x509_ctx)) = Inl e"
  with assms show "fst (ossl_verify cms_get now_isValid now_isGood preverify_ok x509_ctx)
      = Return 0"
    by (simp add: ossl_verify_fetch_fails)
qed

theorem ossl_verify_preverify_ok_witness:
  "fst (ossl_verify cms_unreachable 1000 1001 1
          (example_ctx example_cert 0 [255 \<mapsto> example_good_status])) = Return 1
   \<and> fst (ossl_verify cms_unreachable 1000 1001 1 (example_ctx example_cert 0 Map.empty))
       = Return 0
   \<and> fst (ossl_verify cms_unreachable 1000 1001 1
            (example_ctx example_cert_no_data 0 Map.empty)) = Return 0
   \<and> fst (ossl_verify cms_unreachable 1000 1001 1
            (example_ctx (example_cert\<lparr>PvaCertStatusURI_index := -1\<rparr>) 0 Map.empty)) = Return 1"
proof -
  have nz: "(1::int) \<noteq> 0" by simp
  have good: "isGood example_good_status 1001"
    by (simp add: isGood_def isValid_def example_good_status_def)
  have cached: "getCachedPeerStatus (ex_data (example_ctx example_cert 0 [255 \<mapsto> example_good_status]))
      (current_cert (example_ctx example_cert 0 [255 \<mapsto> example_good_status]))
      = Some example_good_status"
    by (simp add: getCachedPeerStatus_def example_ctx_def example_cert_def)
  have a: "fst (ossl_verify cms_unreachable 1000 1001 1
          (example_ctx example_cert 0 [255 \<mapsto> example_good_status])) = Return 1"
    using ossl_verify_preverify_ok [OF nz, of "example_ctx example_cert 0 [255 \<mapsto> example_good_status]"
        cms_unreachable 1000 1001] good cached example_cert_monitored(1)
    by (simp add: example_ctx_def)
  have fetch: "must_fetch (example_ctx cert 0 Map.empty) 1000" for cert
    by (simp add: must_fetch_def getCachedPeerStatus_def example_ctx_def)
  have fails: "getStatus cms_unreachable (X509_dup (current_cert (example_ctx example_cert 0 Map.empty)))
      = Inl (runtime_error ''Timeout'')"
    by (simp add: getStatus_def example_ctx_def example_cert_monitored cms_unreachable_def)
  have b: "fst (ossl_verify cms_unreachable 1000 1001 1 (example_ctx example_cert 0 Map.empty))
       = Return 0"
    using ossl_verify_preverify_ok [OF nz, of "example_ctx example_cert 0 Map.empty"
        cms_unreachable 1000 1001] fetch fails example_cert_monitored(1)
    by (simp add: example_ctx_def)
  have fails': "getStatus cms_unreachable
      (X509_dup (current_cert (example_ctx example_cert_no_data 0 Map.empty)))
      = Inl (runtime_error ''Timeout'')"
    by (simp add: getStatus_def example_ctx_def example_cert_monitored cms_unreachable_def)
  have b': "fst (ossl_verify cms_unreachable 1000 1001 1
            (example_ctx example_cert_no_data 0 Map.empty)) = Return 0"
    using ossl_verify_preverify_ok [OF nz, of "example_ctx example_cert_no_data 0 Map.empty"
        cms_unreachable 1000 1001] fetch fails' example_cert_monitored(2)
    by (simp add: example_ctx_def)
  have "\<not> statusMonitoringRequired (example_cert\<lparr>PvaCertStatusURI_index := -1\<rparr>)"
    by (simp add: statusMonitoringRequired_def getExtension_def)
  then have c: "fst (ossl_verify cms_unreachable 1000 1001 1
            (example_ctx (example_cert\<lparr>PvaCertStatusURI_index := -1\<rparr>) 0 Map.empty)) = Return 1"
    using ossl_verify_preverify_ok [OF nz,
        of "example_ctx (example_cert\<lparr>PvaCertStatusURI_index := -1\<rparr>) 0 Map.empty"
        cms_unreachable 1000 1001]
    by (simp add: example_ctx_def)
  from a b b' c show ?thesis by simp
qed

subsection \<open>Parsing a signed status\<close>

lemma example_times:
  "tmToTimeTUTC (tm_2024_01_01 0 0) = 1704067200"
  "tmToTimeTUTC (tm_2024_01_01 0 30) = 1704069000"
  "tmToTimeTUTC (tm_2024_01_01 24 0) = 1704153600"
  by (simp_all add: tmToTimeTUTC_def tm_2024_01_01_def kMonthStartDays_def
      signed_divide_int_def signed_modulo_int_def)

lemma parse_ignores_clock:
  "parse env now bytes allow_self_signed_ca custom_ca_dir
     = parse env now' bytes allow_self_signed_ca custom_ca_dir"
  by (simp add: parse_def Let_def split: sum.splits option.splits list.splits)

lemma verifyOCSPResponse_error:
  "verifyOCSPResponse env basic allow_self_signed_ca custom_ca_dir = Inl e \<Longrightarrow>
   \<exists>msg. e = OCSPParseException msg"
  by (auto simp: verifyOCSPResponse_def split: if_splits option.splits)

lemma verifyOCSPResponse_example:
  "verifyOCSPResponse (example_env response)
     \<lparr>resp_signer_found = True, signer_self_issued = False, ensureTrusted_error = None,
      OCSP_basic_verify_result = 1, single_responses = singles\<rparr> False [] = Inr True"
  by (simp add: verifyOCSPResponse_def example_env_def)

lemma parse_example:
  "parse (example_env (example_response single)) now bytes False [] =
     (if single_status single = OCSP_CERTSTATUS_REVOKED \<and> revocation_time single = None
      then Inl (OCSPParseException ''Revocation time not set when status is REVOKED'')
      else
        (case StatusDate_of_ASN1_TIME (this_update single) of
           Inl e \<Rightarrow> Inl e
         | Inr sd \<Rightarrow>
             (case StatusDate_of_ASN1_TIME (next_update single) of
                Inl e \<Rightarrow> Inl e
              | Inr vu \<Rightarrow>
                  (case StatusDate_of_ASN1_TIME (revocation_time single) of
                     Inl e \<Rightarrow> Inl e
                   | Inr rd \<Rightarrow>
                       Inr \<lparr>parsed_serial = certid_serial single,
                            parsed_ocsp_status = OCSPCertStatus (single_status single),
                            parsed_status_date = sd,
                            parsed_status_valid_until_date = vu,
                            parsed_revocation_date = rd\<rparr>))))"
proof -
  have "getOCSPResponse (example_env (example_response single)) bytes
          = Inr (example_response single)"
    by (simp add: getOCSPResponse_def example_env_def)
  then show ?thesis
    by (simp add: parse_def example_response_def verifyOCSPResponse_example
        OCSP_RESPONSE_STATUS_SUCCESSFUL_def Let_def)
qed

lemma StatusDate_of_example_times:
  "StatusDate_of_ASN1_TIME None = Inr \<lparr>date_t = 0\<rparr>"
  "StatusDate_of_ASN1_TIME (Some \<lparr>ASN1_TIME_to_tm = Some (tm_2024_01_01 0 0)\<rparr>)
     = Inr \<lparr>date_t = 1704067200\<rparr>"
  "StatusDate_of_ASN1_TIME (Some \<lparr>ASN1_TIME_to_tm = Some (tm_2024_01_01 0 30)\<rparr>)
     = Inr \<lparr>date_t = 1704069000\<rparr>"
  by (simp_all add: StatusDate_of_ASN1_TIME_def asn1TimeToTimeT_def example_times)

text \<open>
  C2 does not hold of the code. A token that is well formed and signed by a trusted
  signer, with \<open>this_update\<close> on 1 January 2024 at 00:00:00 and \<open>next_update\<close> half
  an hour later, is parsed one day later, at second 1704153600: its window lies outside
  the 5-second slack (\<open>OCSP_check_validity\<close> with \<open>nsec = 0\<close> and \<open>maxsec = 5\<close>
  gives 0), and \<open>parse\<close> returns the parsed status all the same. The statement
  \<^verbatim>\<open>OCSP_check_validity(this_update, next_update, 0, 5);\<close>, under the comment
  ``Check status validity: less than 5 seconds old'', drops the result of the check.
\<close>

theorem parse_accepts_expired_window:
  "\<not> OCSP_check_validity 1704153600 (this_update example_single) (next_update example_single) 0 5
   \<and> parse (example_env (example_response example_single)) 1704153600 [0x30] False []
       = Inr \<lparr>parsed_serial = 255,
              parsed_ocsp_status = OCSPCertStatus OCSP_CERTSTATUS_GOOD,
              parsed_status_date = \<lparr>date_t = 1704067200\<rparr>,
              parsed_status_valid_until_date = \<lparr>date_t = 1704069000\<rparr>,
              parsed_revocation_date = \<lparr>date_t = 0\<rparr>\<rparr>"
proof -
  have "\<not> OCSP_check_validity 1704153600 (this_update example_single)
           (next_update example_single) 0 5"
    by (simp add: OCSP_check_validity_def ASN1_TIME_seconds_def example_single_def example_times)
  moreover have "parse (example_env (example_response example_single)) 1704153600 [0x30] False []
       = Inr \<lparr>parsed_serial = 255,
              parsed_ocsp_status = OCSPCertStatus OCSP_CERTSTATUS_GOOD,
              parsed_status_date = \<lparr>date_t = 1704067200\<rparr>,
              parsed_status_valid_until_date = \<lparr>date_t = 1704069000\<rparr>,
              parsed_revocation_date = \<lparr>date_t = 0\<rparr>\<rparr>"
    by (simp add: parse_example example_single_def StatusDate_of_example_times)
  ultimately show ?thesis by simp
qed

lemma parse_Inr_single:
  assumes "parse env now bytes allow_self_signed_ca custom_ca_dir = Inr parsed"
  shows "\<exists>single. token_single_response env bytes = Some single
           \<and> \<not> (single_status single = OCSP_CERTSTATUS_REVOKED \<and> revocation_time single = None)
           \<and> parsed_ocsp_status parsed = OCSPCertStatus (single_status single)
           \<and> StatusDate_of_ASN1_TIME (revocation_time single)
               = Inr (parsed_revocation_date parsed)"
  using assms
  by (auto simp: parse_def getOCSPResponse_def token_single_response_def Let_def
      split: sum.splits option.splits list.splits if_splits)

lemma parse_revoked_no_time:
  assumes "token_single_response env bytes = Some single"
    and "single_status single = OCSP_CERTSTATUS_REVOKED" and "revocation_time single = None"
  shows "\<exists>msg. parse env now bytes allow_self_signed_ca custom_ca_dir
                 = Inl (OCSPParseException msg)"
proof -
  from assms(1) obtain ocsp_response basic others where
    d2i: "d2i_OCSP_RESPONSE_bio env bytes = Some ocsp_response"
    and basic: "basic_response ocsp_response = Some basic"
    and singles: "single_responses basic = single # others"
    by (auto simp: token_single_response_def split: option.splits list.splits)
  show ?thesis
  proof (cases "verifyOCSPResponse env basic allow_self_signed_ca custom_ca_dir")
    case (Inl e)
    then obtain msg where "e = OCSPParseException msg"
      using verifyOCSPResponse_error by blast
    with Inl d2i basic show ?thesis
      by (simp add: parse_def getOCSPResponse_def)
  next
    case (Inr verified)
    with d2i basic singles assms(2,3) show ?thesis
      by (simp add: parse_def getOCSPResponse_def Let_def)
  qed
qed

text \<open>
  C10. For every status token that \<open>parse\<close> accepts with OCSP status REVOKED, the
  token's single response carries a revocation time, and the revocation date of the
  returned status is the date of that time; and if the token's single response carries
  status REVOKED without a revocation time, \<open>parse\<close> fails with an
  \<open>OCSPParseException\<close> instead of returning.
\<close>

theorem parse_revoked_revocation_time:
  "(parse env now bytes allow_self_signed_ca custom_ca_dir = Inr parsed
      \<and> ocsp_status_eq (parsed_ocsp_status parsed) OCSP_CERTSTATUS_REVOKED \<longrightarrow>
    (\<exists>single rt. token_single_response env bytes = Some single
        \<and> revocation_time single = Some rt
        \<and> StatusDate_of_ASN1_TIME (Some rt) = Inr (parsed_revocation_date parsed)))
   \<and> (token_single_response env bytes = Some single'
      \<and> single_status single' = OCSP_CERTSTATUS_REVOKED
      \<and> revocation_time single' = None \<longrightarrow>
    (\<exists>msg. parse env now bytes allow_self_signed_ca custom_ca_dir
              = Inl (OCSPParseException msg)))"
proof (intro conjI impI)
  assume a: "parse env now bytes allow_self_signed_ca custom_ca_dir = Inr parsed
      \<and> ocsp_status_eq (parsed_ocsp_status parsed) OCSP_CERTSTATUS_REVOKED"
  then obtain single where s: "token_single_response env bytes = Some single"
    "\<not> (single_status single = OCSP_CERTSTATUS_REVOKED \<and> revocation_time single = None)"
    "parsed_ocsp_status parsed = OCSPCertStatus (single_status single)"
    "StatusDate_of_ASN1_TIME (revocation_time single) = Inr (parsed_revocation_date parsed)"
    using parse_Inr_single by blast
  from a s(3) have "single_status single = OCSP_CERTSTATUS_REVOKED" by simp
  with s(2) obtain rt where "revocation_time single = Some rt" by auto
  with s(1,4) show "\<exists>single rt. token_single_response env bytes = Some single
        \<and> revocation_time single = Some rt
        \<and> StatusDate_of_ASN1_TIME (Some rt) = Inr (parsed_revocation_date parsed)"
    by auto
next
  assume "token_single_response env bytes = Some single'
      \<and> single_status single' = OCSP_CERTSTATUS_REVOKED
      \<and> revocation_time single' = None"
  then show "\<exists>msg. parse env now bytes allow_self_signed_ca custom_ca_dir
              = Inl (OCSPParseException msg)"
    using parse_revoked_no_time by blast
qed

theorem parse_revoked_revocation_time_witness:
  "(\<exists>single rt. token_single_response (example_env (example_response example_revoked)) [0x30]
          = Some single
        \<and> revocation_time single = Some rt
        \<and> StatusDate_of_ASN1_TIME (Some rt) = Inr \<lparr>date_t = 1704067200\<rparr>)
   \<and> (\<exists>msg. parse (example_env (example_response example_revoked_no_time)) 1704067201 [0x30]
              False [] = Inl (OCSPParseException msg))"
proof -
  let ?parsed = "\<lparr>parsed_serial = 255,
                  parsed_ocsp_status = OCSPCertStatus OCSP_CERTSTATUS_REVOKED,
                  parsed_status_date = \<lparr>date_t = 1704067200\<rparr>,
                  parsed_status_valid_until_date = \<lparr>date_t = 1704069000\<rparr>,
                  parsed_revocation_date = \<lparr>date_t = 1704067200\<rparr>\<rparr>"
  have accepted: "parse (example_env (example_response example_revoked)) 1704067201 [0x30]
      False [] = Inr ?parsed"
    by (simp add: parse_example example_revoked_def example_single_def
        StatusDate_of_example_times)
  have revoked: "ocsp_status_eq (parsed_ocsp_status ?parsed) OCSP_CERTSTATUS_REVOKED"
    by simp
  have no_time: "token_single_response (example_env (example_response example_revoked_no_time))
      [0x30] = Some example_revoked_no_time"
    "single_status example_revoked_no_time = OCSP_CERTSTATUS_REVOKED"
    "revocation_time example_revoked_no_time = None"
    by (simp_all add: token_single_response_def example_env_def example_response_def
        example_revoked_no_time_def example_single_def)
  from parse_revoked_revocation_time
    [of "example_env (example_response example_revoked)" 1704067201 "[0x30]" False "[]" ?parsed]
    accepted revoked
  have first: "\<exists>single rt. token_single_response (example_env (example_response example_revoked))
          [0x30] = Some single
        \<and> revocation_time single = Some rt
        \<and> StatusDate_of_ASN1_TIME (Some rt) = Inr \<lparr>date_t = 1704067200\<rparr>"
    by simp
  from parse_revoked_revocation_time
    [of "example_env (example_response example_revoked_no_time)" 1704067201 "[0x30]" False "[]"
      _ example_revoked_no_time] no_time
  have second: "\<exists>msg. parse (example_env (example_response example_revoked_no_time)) 1704067201
      [0x30] False [] = Inl (OCSPParseException msg)"
    by simp
  from first second show ?thesis by simp
qed

subsection \<open>Consistency of a status built from a PV value\<close>

lemma selfConsistent_imp_invariants: "selfConsistent cs \<Longrightarrow> spec_status_invariants cs"
  by (auto simp: selfConsistent_def spec_status_invariants_def ocsp_status_eq_def
      pva_status_eq_def)

lemma CertificateStatus_of_bytes_bytes:
  "CertificateStatus_of_bytes init st bytes = Inr built \<Longrightarrow> ocsp_bytes built = bytes"
  by (auto simp: CertificateStatus_of_bytes_def split: sum.splits prod.splits)

lemma CertificateStatus_of_Value_Inr:
  assumes "CertificateStatus_of_Value init get_time status_value = Inr cs"
  shows "CertificateStatus_of_bytes init (status_value_index status_value)
           (ocsp_response status_value) = Inr cs
         \<and> (ocsp_bytes cs \<noteq> [] \<longrightarrow> selfConsistent cs)"
  using assms
  by (auto simp: CertificateStatus_of_Value_def split: sum.splits if_splits)

text \<open>
  C5. Every \<open>CertificateStatus\<close> successfully constructed from a status PV value with
  non-empty \<open>ocsp_bytes\<close> satisfies the consistency invariants (OCSP status GOOD iff PVA
  status VALID, OCSP status REVOKED iff PVA status REVOKED, OCSP status UNKNOWN implies
  PVA status neither VALID nor REVOKED); and the construction fails, with an
  \<open>OCSPParseException\<close>, on every value with non-empty \<open>ocsp_bytes\<close> whose statuses
  violate them. This holds whatever \<open>OCSPStatus::init\<close> reads from the bytes.
\<close>

theorem CertificateStatus_of_Value_consistent:
  "(CertificateStatus_of_Value init get_time status_value = Inr cs
      \<and> ocsp_response status_value \<noteq> [] \<longrightarrow> spec_status_invariants cs)
   \<and> (ocsp_response status_value \<noteq> []
      \<and> CertificateStatus_of_bytes init (status_value_index status_value)
            (ocsp_response status_value) = Inr built
      \<and> \<not> spec_status_invariants built \<longrightarrow>
        CertificateStatus_of_Value init get_time status_value
          = Inl (OCSPParseException
                   ''Certificate status does not match certified OCSP status''))"
proof (intro conjI impI)
  assume a: "CertificateStatus_of_Value init get_time status_value = Inr cs
      \<and> ocsp_response status_value \<noteq> []"
  then have b: "CertificateStatus_of_bytes init (status_value_index status_value)
           (ocsp_response status_value) = Inr cs"
    and c: "ocsp_bytes cs \<noteq> [] \<longrightarrow> selfConsistent cs"
    using CertificateStatus_of_Value_Inr by blast+
  from b have "ocsp_bytes cs = ocsp_response status_value"
    by (rule CertificateStatus_of_bytes_bytes)
  with a c show "spec_status_invariants cs"
    by (simp add: selfConsistent_imp_invariants)
next
  assume a: "ocsp_response status_value \<noteq> []
      \<and> CertificateStatus_of_bytes init (status_value_index status_value)
            (ocsp_response status_value) = Inr built
      \<and> \<not> spec_status_invariants built"
  then have "ocsp_bytes built = ocsp_response status_value"
    using CertificateStatus_of_bytes_bytes by blast
  moreover have "\<not> selfConsistent built"
    using a selfConsistent_imp_invariants by blast
  ultimately show "CertificateStatus_of_Value init get_time status_value
          = Inl (OCSPParseException
                   ''Certificate status does not match certified OCSP status'')"
    using a by (simp add: CertificateStatus_of_Value_def)
qed

theorem CertificateStatus_of_Value_consistent_witness:
  "(\<exists>cs. CertificateStatus_of_Value (example_init OCSP_CERTSTATUS_GOOD) example_get_time
            (example_value VALID) = Inr cs
         \<and> spec_status_invariants cs)
   \<and> CertificateStatus_of_Value (example_init OCSP_CERTSTATUS_REVOKED) example_get_time
        (example_value VALID)
       = Inl (OCSPParseException ''Certificate status does not match certified OCSP status'')"
proof -
  let ?good = "\<lparr>ocsp_bytes = [0x30], ocsp_status = OCSPCertStatus OCSP_CERTSTATUS_GOOD,
     status_date = \<lparr>date_t = 0\<rparr>, status_valid_until_date = \<lparr>date_t = 0\<rparr>,
     revocation_date = \<lparr>date_t = 0\<rparr>, status = PVACertStatus VALID\<rparr>"
  let ?bad = "\<lparr>ocsp_bytes = [0x30], ocsp_status = OCSPCertStatus OCSP_CERTSTATUS_REVOKED,
     status_date = \<lparr>date_t = 0\<rparr>, status_valid_until_date = \<lparr>date_t = 0\<rparr>,
     revocation_date = \<lparr>date_t = 0\<rparr>, status = PVACertStatus VALID\<rparr>"
  have nonempty: "ocsp_response (example_value VALID) \<noteq> []"
    by (simp add: example_value_def)
  have built: "CertificateStatus_of_Value (example_init OCSP_CERTSTATUS_GOOD) example_get_time
      (example_value VALID) = Inr ?good"
    by (simp add: CertificateStatus_of_Value_def CertificateStatus_of_bytes_def
        example_init_def example_value_def selfConsistent_def dateConsistent_def
        StatusDate_of_string_def toTimeT_def StatusDate_eq_def)
  have first: "spec_status_invariants ?good"
    using CertificateStatus_of_Value_consistent
      [of "example_init OCSP_CERTSTATUS_GOOD" example_get_time "example_value VALID" ?good]
      built nonempty
    by simp
  have bad_built: "CertificateStatus_of_bytes (example_init OCSP_CERTSTATUS_REVOKED)
      (status_value_index (example_value VALID)) (ocsp_response (example_value VALID))
      = Inr ?bad"
    by (simp add: CertificateStatus_of_bytes_def example_init_def example_value_def)
  have violated: "\<not> spec_status_invariants ?bad"
    by (simp add: spec_status_invariants_def)
  have second: "CertificateStatus_of_Value (example_init OCSP_CERTSTATUS_REVOKED) example_get_time
        (example_value VALID)
       = Inl (OCSPParseException ''Certificate status does not match certified OCSP status'')"
    using CertificateStatus_of_Value_consistent
      [of "example_init OCSP_CERTSTATUS_REVOKED" example_get_time "example_value VALID" _ ?bad]
      bad_built violated nonempty
    by simp
  from built first second show ?thesis by simp
qed

end
